theory Spec2Isabelle
  imports Complex_Main "HOL-Library.AList"
begin

section \<open>JavaScript values\<close>

text \<open>
  The values that flow through the client: what a decoded JSON reply holds, what a caller
  passes as an argument, and the prototype method that a property read on an array can
  return (\<open>JFun\<close>). A finite number is the rational that the double denotes (the two
  zeros are one); \<open>JNaN\<close> and \<open>JInfinity\<close> are the other numbers, \<open>JInfinity True\<close>
  the positive one. Strings are byte lists (UTF-8). An object is an association list
  with distinct keys, in the order the engine lists them.
\<close>

datatype jsval =
    JUndefined
  | JNull
  | JBool bool
  | JNum rat
  | JNaN
  | JInfinity bool
  | JStr string
  | JArr "jsval list"
  | JObj "(string \<times> jsval) list"
  | JFun string

type_synonym jsobj = "(string \<times> jsval) list"

fun truthy :: "jsval \<Rightarrow> bool" where
  "truthy JUndefined = False"
| "truthy JNull = False"
| "truthy (JBool b) = b"
| "truthy (JNum r) = (r \<noteq> 0)"
| "truthy JNaN = False"
| "truthy (JInfinity s) = True"
| "truthy (JStr s) = (s \<noteq> [])"
| "truthy (JArr xs) = True"
| "truthy (JObj kvs) = True"
| "truthy (JFun f) = True"

fun isArray :: "jsval \<Rightarrow> bool" where
  "isArray (JArr xs) = True"
| "isArray v = False"

fun isString :: "jsval \<Rightarrow> bool" where
  "isString (JStr s) = True"
| "isString v = False"

text \<open>\<open>o.k\<close> on an object literal: the value stored under the key, else undefined.\<close>

definition field :: "jsobj \<Rightarrow> string \<Rightarrow> jsval" where
  "field kvs k = (case map_of kvs k of Some v \<Rightarrow> v | None \<Rightarrow> JUndefined)"

fun intercalate :: "string \<Rightarrow> string list \<Rightarrow> string" where
  "intercalate sep [] = []"
| "intercalate sep [x] = x"
| "intercalate sep (x # y # ys) = x @ sep @ intercalate sep (y # ys)"

text \<open>
  String conversion (\<open>String(v)\<close>, template literals, \<open>URLSearchParams\<close>). How the engine
  prints a number is its own business (shortest round-trip digits of a double): it is the
  parameter \<open>n2s\<close> of everything that converts a number to text.
\<close>

fun ToString :: "(rat \<Rightarrow> string) \<Rightarrow> jsval \<Rightarrow> string" where
  "ToString n2s JUndefined = ''undefined''"
| "ToString n2s JNull = ''null''"
| "ToString n2s (JBool b) = (if b then ''true'' else ''false'')"
| "ToString n2s (JNum r) = n2s r"
| "ToString n2s JNaN = ''NaN''"
| "ToString n2s (JInfinity s) = (if s then ''Infinity'' else ''-Infinity'')"
| "ToString n2s (JStr s) = s"
| "ToString n2s (JArr xs) =
     intercalate '',''
       (map (\<lambda>x. if x = JUndefined \<or> x = JNull then [] else ToString n2s x) xs)"
| "ToString n2s (JObj kvs) = ''[object Object]''"
| "ToString n2s (JFun f) = ''function '' @ f @ ''() { [native code] }''"

subsection \<open>JSON.stringify\<close>

definition hexdigit :: "int \<Rightarrow> char" where
  "hexdigit n = ''0123456789abcdef'' ! nat (n mod 16)"

definition quote_char :: "char \<Rightarrow> string" where
  "quote_char c =
     (if c = CHR 0x22 then [CHR 0x5C, CHR 0x22]
      else if c = CHR 0x5C then [CHR 0x5C, CHR 0x5C]
      else if c = CHR 0x08 then [CHR 0x5C, CHR ''b'']
      else if c = CHR 0x0C then [CHR 0x5C, CHR ''f'']
      else if c = CHR 0x0A then [CHR 0x5C, CHR ''n'']
      else if c = CHR 0x0D then [CHR 0x5C, CHR ''r'']
      else if c = CHR 0x09 then [CHR 0x5C, CHR ''t'']
      else if (of_char c :: int) < 32
        then [CHR 0x5C, CHR ''u'', CHR ''0'', CHR ''0'',
              hexdigit (of_char c div 16), hexdigit (of_char c)]
      else [c])"

definition quote :: "string \<Rightarrow> string" where
  "quote s = [CHR 0x22] @ concat (map quote_char s) @ [CHR 0x22]"

text \<open>
  \<open>None\<close> is the result undefined. In an array an undefined element prints as null; in an
  object a property whose value is undefined is left out.
\<close>

fun stringify :: "(rat \<Rightarrow> string) \<Rightarrow> jsval \<Rightarrow> string option" where
  "stringify n2s JUndefined = None"
| "stringify n2s (JFun f) = None"
| "stringify n2s JNull = Some ''null''"
| "stringify n2s (JBool b) = Some (if b then ''true'' else ''false'')"
| "stringify n2s (JNum r) = Some (n2s r)"
| "stringify n2s JNaN = Some ''null''"
| "stringify n2s (JInfinity s) = Some ''null''"
| "stringify n2s (JStr s) = Some (quote s)"
| "stringify n2s (JArr xs) =
     Some (''['' @ intercalate '',''
       (map (\<lambda>x. case stringify n2s x of None \<Rightarrow> ''null'' | Some t \<Rightarrow> t) xs) @ '']'')"
| "stringify n2s (JObj kvs) =
     Some (''{'' @ intercalate '',''
       (concat (map (\<lambda>(k, v). case stringify n2s v of None \<Rightarrow> []
                               | Some t \<Rightarrow> [quote k @ '':'' @ t]) kvs)) @ ''}'')"

section \<open>Errors and the transport\<close>

text \<open>
  What a rejected call carries. \<open>GigapipeError\<close> is the client's own error class, built as
  \<open>new GigapipeError(message, statusCode)\<close>; \<open>OtherError\<close> is any other error object
  (\<open>error instanceof GigapipeError\<close> is false), with its \<open>message\<close> and its
  \<open>statusCode\<close>, \<open>None\<close> where the property is undefined.
\<close>

datatype error =
    GigapipeError string "int option"
  | OtherError string "int option"

fun error_message :: "error \<Rightarrow> string" where
  "error_message (GigapipeError m c) = m"
| "error_message (OtherError m c) = m"

fun statusCode :: "error \<Rightarrow> int option" where
  "statusCode (GigapipeError m c) = c"
| "statusCode (OtherError m c) = c"

fun isGigapipeError :: "error \<Rightarrow> bool" where
  "isGigapipeError (GigapipeError m c) = True"
| "isGigapipeError (OtherError m c) = False"

record request =
  url :: string
  http_method :: string
  headers :: jsobj
  body :: "string option"

text \<open>
  \<open>service.request(url, {method, headers, body})\<close>: the awaited call either resolves with
  the decoded reply or rejects with an error.
\<close>

type_synonym service = "request \<Rightarrow> error + jsval"

text \<open>
  The handler every operation installs on the transport call:
  \<^verbatim>\<open>if (error instanceof GigapipeError) throw error;
  throw new GigapipeError(`<prefix>${error.message}`, error.statusCode);\<close>
\<close>

definition rethrow :: "string \<Rightarrow> error \<Rightarrow> error" where
  "rethrow prefix e =
     (if isGigapipeError e then e
      else GigapipeError (prefix @ error_message e) (statusCode e))"

section \<open>Stream buffers\<close>

text \<open>
  Modelled from the spec: the class \<open>Stream\<close> of \<open>../models\<close> is not among the sources.
  A buffer holds a label set, its pending entries (the field \<open>entries\<close> that \<open>push\<close>
  reads) and its confirmed entries. \<open>collect\<close> returns the wire shape
  \<open>{labels, entries}\<close> and leaves the buffer as it is; \<open>confirm\<close> moves the pending
  entries to the confirmed ones; \<open>undo\<close> restores the state before \<open>collect\<close>, which is
  the current one. None of them raises.
\<close>

record stream =
  stream_labels :: jsval
  entries :: "jsval list"
  confirmed :: "jsval list"

definition collect :: "stream \<Rightarrow> jsval" where
  "collect s = JObj [(''labels'', stream_labels s), (''entries'', JArr (entries s))]"

definition confirm :: "stream \<Rightarrow> stream" where
  "confirm s = s\<lparr>entries := [], confirmed := confirmed s @ entries s\<rparr>"

definition undo :: "stream \<Rightarrow> stream" where
  "undo s = s"

text \<open>
  Buffers are objects: the caller and \<open>push\<close> share them by reference, and one buffer may
  stand at several places of the array. The store maps an address to the buffer there.
\<close>

type_synonym store = "nat \<Rightarrow> stream"

text \<open>
  An argument of \<open>push\<close>: a \<open>Stream\<close> instance (by address), an array of arguments, or
  any value that holds no instance.
\<close>

datatype jsarg = Inst nat | Arr "jsarg list" | Plain jsval

fun elements :: "jsarg \<Rightarrow> jsarg list option" where
  "elements (Arr xs) = Some xs"
| "elements (Plain (JArr vs)) = Some (map Plain vs)"
| "elements x = None"

datatype event = Collected nat | Requested request | Confirmed nat | Undone nat

section \<open>Loki.push\<close>

text \<open>
  \<^verbatim>\<open>if (options.orgId) headers['X-Scope-OrgID'] = options.orgId;
  if (options.async) headers['X-Async-Insert'] = options.async;
  if (options.fpLimit) headers['X-Ttl-Days'] = options.fpLimit;
  if (options.ttlDays) headers['X-FP-LIMIT'] = options.ttlDays;\<close>
\<close>

definition Loki_headers :: "jsobj \<Rightarrow> jsobj" where
  "Loki_headers options =
     (if truthy (field options ''orgId'') then [(''X-Scope-OrgID'', field options ''orgId'')] else [])
   @ (if truthy (field options ''async'') then [(''X-Async-Insert'', field options ''async'')] else [])
   @ (if truthy (field options ''fpLimit'') then [(''X-Ttl-Days'', field options ''fpLimit'')] else [])
   @ (if truthy (field options ''ttlDays'') then [(''X-FP-LIMIT'', field options ''ttlDays'')] else [])"

text \<open>
  The callback of \<open>streams.every\<close>, run from left to right until it returns a falsy value:
  \<^verbatim>\<open>if (s instanceof Stream) {
    if (s.entries.length) payload.streams.push(s.collect())
    return s;
  }\<close>
  The result is whether every element passed, with the payload and the calls made so far.
\<close>

fun every_Stream :: "store \<Rightarrow> jsarg list \<Rightarrow> jsval list \<Rightarrow> event list
    \<Rightarrow> bool \<times> jsval list \<times> event list" where
  "every_Stream st [] payload tr = (True, payload, tr)"
| "every_Stream st (Inst a # xs) payload tr =
     (if entries (st a) \<noteq> []
      then every_Stream st xs (payload @ [collect (st a)]) (tr @ [Collected a])
      else every_Stream st xs payload tr)"
| "every_Stream st (x # xs) payload tr = (False, payload, tr)"

text \<open>The instances of an array. After validation the array holds nothing else.\<close>

fun instances :: "jsarg list \<Rightarrow> nat list" where
  "instances [] = []"
| "instances (Inst a # xs) = a # instances xs"
| "instances (x # xs) = instances xs"

text \<open>\<open>s instanceof Stream\<close>\<close>

fun isStream :: "jsarg \<Rightarrow> bool" where
  "isStream (Inst a) = True"
| "isStream x = False"

text \<open>\<open>streams.forEach(s => s.confirm())\<close> and \<open>streams.forEach(s => s.undo())\<close>.\<close>

fun forEach :: "(stream \<Rightarrow> stream) \<Rightarrow> nat list \<Rightarrow> store \<Rightarrow> store" where
  "forEach f [] st = st"
| "forEach f (a # as) st = forEach f as (st(a := f (st a)))"

text \<open>
  The argument of the one call \<open>push\<close> makes:
  \<^verbatim>\<open>this.service.request('/loki/api/v1/push',
    { method: 'POST', headers, body: JSON.stringify(payload) })\<close>
  with \<open>payload = { streams: [...] }\<close>.
\<close>

definition push_request :: "(rat \<Rightarrow> string) \<Rightarrow> jsobj \<Rightarrow> jsval list \<Rightarrow> request" where
  "push_request n2s options payload =
     \<lparr>url = ''/loki/api/v1/push'', http_method = ''POST'', headers = Loki_headers options,
      body = stringify n2s (JObj [(''streams'', JArr payload)])\<rparr>"

text \<open>
  What a call of \<open>push\<close> leaves: what it resolves or rejects with, the store after it,
  and the calls it made on the buffers and on the transport, in order. \<open>options\<close> is
  an object (\<open>{}\<close> when the caller gives none).
\<close>

record push_outcome =
  outcome :: "error + jsval"
  final :: store
  trace :: "event list"

definition push :: "(rat \<Rightarrow> string) \<Rightarrow> service \<Rightarrow> store \<Rightarrow> jsarg \<Rightarrow> jsobj \<Rightarrow> push_outcome" where
  "push n2s service st streams options =
     (case elements streams of
        None \<Rightarrow>
          \<lparr>outcome = Inl (GigapipeError ''Streams must be an array of Stream instances'' None),
           final = st, trace = []\<rparr>
      | Some xs \<Rightarrow>
          (case every_Stream st xs [] [] of
             (False, payload, tr) \<Rightarrow>
               \<lparr>outcome = Inl (GigapipeError ''Streams must be an array of Stream instances'' None),
                final = st, trace = tr\<rparr>
           | (True, payload, tr) \<Rightarrow>
               (let req = push_request n2s options payload
                in case service req of
                     Inr response \<Rightarrow>
                       \<lparr>outcome = Inr response,
                        final = forEach confirm (instances xs) st,
                        trace = tr @ [Requested req] @ map Confirmed (instances xs)\<rparr>
                   | Inl error \<Rightarrow>
                       \<lparr>outcome = Inl (rethrow ''Loki push failed: '' error),
                        final = forEach undo (instances xs) st,
                        trace = tr @ [Requested req] @ map Undone (instances xs)\<rparr>)))"

text \<open>The network calls of a trace, in order.\<close>

fun network_calls :: "event list \<Rightarrow> request list" where
  "network_calls [] = []"
| "network_calls (Requested r # es) = r # network_calls es"
| "network_calls (e # es) = network_calls es"

text \<open>The buffers with a pending entry, which \<open>push\<close> collects.\<close>

definition pending :: "store \<Rightarrow> nat list \<Rightarrow> nat list" where
  "pending st as = filter (\<lambda>a. entries (st a) \<noteq> []) as"

section \<open>The built-ins the normalizer calls\<close>

subsection \<open>Characters and digit strings\<close>

definition byte :: "char \<Rightarrow> int" where
  "byte c = of_char c"

definition isDigit :: "char \<Rightarrow> bool" where
  "isDigit c \<longleftrightarrow> 48 \<le> byte c \<and> byte c \<le> 57"

definition isLower :: "char \<Rightarrow> bool" where
  "isLower c \<longleftrightarrow> 97 \<le> byte c \<and> byte c \<le> 122"

definition isUpper :: "char \<Rightarrow> bool" where
  "isUpper c \<longleftrightarrow> 65 \<le> byte c \<and> byte c \<le> 90"

definition isHexDigit :: "char \<Rightarrow> bool" where
  "isHexDigit c \<longleftrightarrow>
     isDigit c \<or> (97 \<le> byte c \<and> byte c \<le> 102) \<or> (65 \<le> byte c \<and> byte c \<le> 70)"

definition isSpace :: "char \<Rightarrow> bool" where
  "isSpace c \<longleftrightarrow> c \<in> {CHR 0x09, CHR 0x0A, CHR 0x0B, CHR 0x0C, CHR 0x0D, CHR 0x20}"

definition digitVal :: "char \<Rightarrow> int" where
  "digitVal c =
     (if isDigit c then byte c - 48
      else if isLower c then byte c - 87
      else byte c - 55)"

text \<open>The value of a digit string in a radix, most significant digit first.\<close>

definition numeral_of :: "int \<Rightarrow> string \<Rightarrow> int" where
  "numeral_of radix ds = foldl (\<lambda>n c. n * radix + digitVal c) 0 ds"

text \<open>
  White space at the head of a string, as \<open>parseInt\<close> skips it: the ASCII ones, and in
  UTF-8 the no-break space, the Unicode space separators, the line and paragraph
  separators and the byte order mark. The result is the number of bytes of the white
  space character at the head, 0 when there is none.
\<close>

definition isWideSpace :: "int list \<Rightarrow> bool" where
  "isWideSpace bs \<longleftrightarrow>
     bs = [225, 154, 128]
     \<or> (take 2 bs = [226, 128] \<and> length bs = 3
        \<and> ((128 \<le> last bs \<and> last bs \<le> 138) \<or> last bs = 168 \<or> last bs = 169 \<or> last bs = 175))
     \<or> bs = [226, 129, 159]
     \<or> bs = [227, 128, 128]
     \<or> bs = [239, 187, 191]"

fun white_space_length :: "string \<Rightarrow> nat" where
  "white_space_length [] = 0"
| "white_space_length (c # cs) =
     (if isSpace c then 1
      else if map byte (c # take 1 cs) = [194, 160] then 2
      else if isWideSpace (map byte (c # take 2 cs)) then 3
      else 0)"

function trimStart :: "string \<Rightarrow> string" where
  "trimStart s =
     (if white_space_length s = 0 then s else trimStart (drop (white_space_length s) s))"
  by pat_completeness auto
termination
proof (relation "measure length")
  show "wf (measure length)" by simp
next
  fix s :: string
  assume "white_space_length s \<noteq> 0"
  then have "s \<noteq> []" by (cases s) auto
  with \<open>white_space_length s \<noteq> 0\<close>
  show "(drop (white_space_length s) s, s) \<in> measure length" by simp
qed

subsection \<open>Numbers\<close>

text \<open>
  What an arithmetic operation or a conversion gives: a finite double, by the rational
  it denotes, an infinity (\<open>Infinite True\<close> the positive one), or NaN.
\<close>

datatype number = Finite rat | Infinite bool | NaN

text \<open>The position of the leading bit of a positive integer.\<close>

function ilog2 :: "int \<Rightarrow> int" where
  "ilog2 n = (if n \<le> 1 then 0 else 1 + ilog2 (n div 2))"
  by pat_completeness auto
termination
  by (relation "measure nat") auto

definition pow2 :: "int \<Rightarrow> rat" where
  "pow2 e = (if 0 \<le> e then 2 ^ nat e else 1 / 2 ^ nat (- e))"

text \<open>The exponent \<open>k\<close> with \<open>2^k \<le> x < 2^(k+1)\<close>, for a positive \<open>x\<close>.\<close>

definition floor_log2 :: "rat \<Rightarrow> int" where
  "floor_log2 x =
     (let (p, q) = quotient_of x; k = ilog2 p - ilog2 q
      in if pow2 k \<le> x then k else k - 1)"

text \<open>The nearest integer, the even one of two that are equally near.\<close>

definition round_even :: "rat \<Rightarrow> int" where
  "round_even x =
     (let f = \<lfloor>x\<rfloor>; d = x - of_int f
      in if d < 1 / 2 then f else if 1 / 2 < d then f + 1 else if even f then f else f + 1)"

text \<open>
  The double nearest to a real value (IEEE 754 binary64, round to nearest, ties to
  even): 53 significant bits, the exponent of the last bit at least \<open>-1074\<close>, and an
  infinity from \<open>2^1024\<close> on.
\<close>

definition binary64 :: "rat \<Rightarrow> number" where
  "binary64 x =
     (if x = 0 then Finite 0
      else
        (let a = \<bar>x\<bar>;
             e = max (floor_log2 a - 52) (- 1074);
             m = round_even (a / pow2 e)
         in if 971 < e \<or> (e = 971 \<and> 9007199254740992 \<le> m) then Infinite (0 < x)
            else Finite ((if x < 0 then - 1 else 1) * of_int m * pow2 e)))"

text \<open>\<open>x / y\<close> for a finite divisor \<open>y\<close> that is not zero.\<close>

fun fdiv :: "number \<Rightarrow> rat \<Rightarrow> number" where
  "fdiv (Finite x) y = binary64 (x / y)"
| "fdiv (Infinite s) y = Infinite (s = (0 < y))"
| "fdiv NaN y = NaN"

text \<open>A number as a value.\<close>

fun num_value :: "number \<Rightarrow> jsval" where
  "num_value (Finite r) = JNum r"
| "num_value (Infinite s) = JInfinity s"
| "num_value NaN = JNaN"

subsection \<open>parseInt\<close>

text \<open>
  \<open>parseInt(v)\<close> with no radix: the argument as a string, leading white space dropped, a
  sign, a \<open>0x\<close> prefix for radix 16, then the longest prefix of digits; NaN when there
  is no digit. The result is a double: the one nearest to the integer read (the
  standard lets an engine be less exact past the twentieth digit; V8 is not).
\<close>

definition parseInt :: "(rat \<Rightarrow> string) \<Rightarrow> jsval \<Rightarrow> number" where
  "parseInt n2s v =
     (let s = trimStart (ToString n2s v);
          neg = (take 1 s = ''-'');
          s1 = (if take 1 s = ''-'' \<or> take 1 s = ''+'' then drop 1 s else s);
          hex = (take 2 s1 = ''0x'' \<or> take 2 s1 = ''0X'');
          s2 = (if hex then drop 2 s1 else s1);
          z = takeWhile (if hex then isHexDigit else isDigit) s2;
          n = numeral_of (if hex then 16 else 10) z
      in if z = [] then NaN else binary64 (of_int (if neg then - n else n)))"

subsection \<open>Date\<close>

datatype Date = Date int | InvalidDate

definition toInteger :: "rat \<Rightarrow> int" where
  "toInteger r = (if 0 \<le> r then \<lfloor>r\<rfloor> else \<lceil>r\<rceil>)"

text \<open>
  \<open>new Date(ms)\<close> for a number: the time value is the number without its fraction, and
  the date is invalid for NaN, for an infinity and beyond 8.64e15 milliseconds from the
  epoch.
\<close>

fun newDate :: "number \<Rightarrow> Date" where
  "newDate (Finite ms) =
     (if \<bar>ms\<bar> > 8640000000000000 then InvalidDate else Date (toInteger ms))"
| "newDate n = InvalidDate"

fun digits :: "nat \<Rightarrow> int \<Rightarrow> string" where
  "digits 0 n = []"
| "digits (Suc k) n = digits k (n div 10) @ [char_of (48 + n mod 10)]"

text \<open>Year, month and day of a day number counted from 1970-01-01 (proleptic Gregorian).\<close>

definition civil :: "int \<Rightarrow> int \<times> int \<times> int" where
  "civil days =
     (let z = days + 719468;
          era = z div 146097;
          doe = z mod 146097;
          yoe = (doe - doe div 1460 + doe div 36524 - doe div 146096) div 365;
          doy = doe - (365 * yoe + yoe div 4 - yoe div 100);
          mp = (5 * doy + 2) div 153;
          d = doy - (153 * mp + 2) div 5 + 1;
          m = (if mp < 10 then mp + 3 else mp - 9);
          y = yoe + era * 400 + (if m \<le> 2 then 1 else 0)
      in (y, m, d))"

definition isoYear :: "int \<Rightarrow> string" where
  "isoYear y =
     (if 0 \<le> y \<and> y \<le> 9999 then digits 4 y
      else (if y < 0 then ''-'' else ''+'') @ digits 6 \<bar>y\<bar>)"

text \<open>\<open>date.toISOString()\<close>; \<open>None\<close> is the RangeError it throws on an invalid date.\<close>

fun toISOString :: "Date \<Rightarrow> string option" where
  "toISOString InvalidDate = None"
| "toISOString (Date t) =
     (let (y, m, d) = civil (t div 86400000);
          r = t mod 86400000
      in Some (isoYear y @ ''-'' @ digits 2 m @ ''-'' @ digits 2 d @ ''T''
               @ digits 2 (r div 3600000) @ '':'' @ digits 2 (r div 60000 mod 60) @ '':''
               @ digits 2 (r div 1000 mod 60) @ ''.'' @ digits 3 (r mod 1000) @ ''Z''))"

subsection \<open>JSON.parse\<close>

datatype token =
    TLBrace | TRBrace | TLBrack | TRBrack | TComma | TColon
  | TStr string | TNum number | TTrue | TFalse | TNull

text \<open>
  A number lexeme, by the JSON grammar:
  \<open>-? (0 | [1-9][0-9]*) (. [0-9]+)? ([eE] [+-]? [0-9]+)?\<close>, and the real value it
  writes. The number decoded is the double nearest to it.
\<close>

definition number_of :: "string \<Rightarrow> rat option" where
  "number_of w =
     (let neg = (take 1 w = ''-'');
          w1 = (if neg then drop 1 w else w);
          ip = takeWhile isDigit w1;
          w2 = dropWhile isDigit w1;
          hasFrac = (take 1 w2 = ''.'');
          fp = (if hasFrac then takeWhile isDigit (drop 1 w2) else []);
          w3 = (if hasFrac then dropWhile isDigit (drop 1 w2) else w2);
          hasExp = (take 1 w3 = ''e'' \<or> take 1 w3 = ''E'');
          w4 = drop 1 w3;
          eneg = (take 1 w4 = ''-'');
          w5 = (if take 1 w4 = ''-'' \<or> take 1 w4 = ''+'' then drop 1 w4 else w4);
          ep = takeWhile isDigit w5;
          mant = of_int (numeral_of 10 (ip @ fp)) / (10 ^ length fp) :: rat;
          e = nat (numeral_of 10 ep);
          val = (if \<not> hasExp then mant else if eneg then mant / 10 ^ e else mant * 10 ^ e)
      in if ip = [] \<or> (length ip > 1 \<and> take 1 ip = ''0'') then None
         else if hasFrac \<and> fp = [] then None
         else if \<not> hasExp \<and> w3 \<noteq> [] then None
         else if hasExp \<and> (ep = [] \<or> dropWhile isDigit w5 \<noteq> []) then None
         else Some (if neg then - val else val))"

definition word_token :: "string \<Rightarrow> token option" where
  "word_token w =
     (if w = ''true'' then Some TTrue
      else if w = ''false'' then Some TFalse
      else if w = ''null'' then Some TNull
      else map_option (\<lambda>r. TNum (binary64 r)) (number_of w))"

definition isWordChar :: "char \<Rightarrow> bool" where
  "isWordChar c \<longleftrightarrow> isDigit c \<or> isLower c \<or> isUpper c \<or> c = CHR ''-'' \<or> c = CHR ''+'' \<or> c = CHR ''.''"

definition isJsonSpace :: "char \<Rightarrow> bool" where
  "isJsonSpace c \<longleftrightarrow> c \<in> {CHR 0x20, CHR 0x09, CHR 0x0A, CHR 0x0D}"

text \<open>
  A code unit of a \<open>\uXXXX\<close> escape, as the bytes of its UTF-8 form (the two halves of
  a surrogate pair are not joined).
\<close>

definition utf8 :: "int \<Rightarrow> string" where
  "utf8 cp =
     (if cp < 128 then [char_of cp]
      else if cp < 2048 then [char_of (192 + cp div 64), char_of (128 + cp mod 64)]
      else [char_of (224 + cp div 4096), char_of (128 + cp div 64 mod 64),
            char_of (128 + cp mod 64)])"

text \<open>
  The lexer reads one character at a time. Between tokens it is \<open>Idle\<close>; inside a string
  it keeps the characters read so far, inside an escape the hexadecimal digits as well;
  a literal or a number is gathered as a word and checked when it ends.
\<close>

datatype lexstate =
    Idle
  | InStr string
  | InEsc string
  | InUni string "char list"
  | InWord string

definition punct :: "char \<Rightarrow> token option" where
  "punct c =
     (if c = CHR ''{'' then Some TLBrace
      else if c = CHR ''}'' then Some TRBrace
      else if c = CHR ''['' then Some TLBrack
      else if c = CHR '']'' then Some TRBrack
      else if c = CHR '','' then Some TComma
      else if c = CHR '':'' then Some TColon
      else None)"

definition unescape :: "char \<Rightarrow> char option" where
  "unescape c =
     (if c = CHR 0x22 \<or> c = CHR 0x5C \<or> c = CHR ''/'' then Some c
      else if c = CHR ''b'' then Some (CHR 0x08)
      else if c = CHR ''f'' then Some (CHR 0x0C)
      else if c = CHR ''n'' then Some (CHR 0x0A)
      else if c = CHR ''r'' then Some (CHR 0x0D)
      else if c = CHR ''t'' then Some (CHR 0x09)
      else None)"

text \<open>The step outside a token; \<open>None\<close> is a syntax error.\<close>

definition lex_idle :: "char \<Rightarrow> (lexstate \<times> token list) option" where
  "lex_idle c =
     (if isJsonSpace c then Some (Idle, [])
      else if c = CHR 0x22 then Some (InStr [], [])
      else if isWordChar c then Some (InWord [c], [])
      else map_option (\<lambda>t. (Idle, [t])) (punct c))"

fun lex_step :: "lexstate \<Rightarrow> char \<Rightarrow> (lexstate \<times> token list) option" where
  "lex_step Idle c = lex_idle c"
| "lex_step (InStr acc) c =
     (if c = CHR 0x22 then Some (Idle, [TStr acc])
      else if c = CHR 0x5C then Some (InEsc acc, [])
      else if byte c < 32 then None
      else Some (InStr (acc @ [c]), []))"
| "lex_step (InEsc acc) c =
     (if c = CHR ''u'' then Some (InUni acc [], [])
      else map_option (\<lambda>d. (InStr (acc @ [d]), [])) (unescape c))"
| "lex_step (InUni acc ds) c =
     (if \<not> isHexDigit c then None
      else if length ds < 3 then Some (InUni acc (ds @ [c]), [])
      else Some (InStr (acc @ utf8 (numeral_of 16 (ds @ [c]))), []))"
| "lex_step (InWord w) c =
     (if isWordChar c then Some (InWord (w @ [c]), [])
      else case word_token w of
             None \<Rightarrow> None
           | Some t \<Rightarrow> map_option (\<lambda>(st, ts). (st, t # ts)) (lex_idle c))"

fun lex :: "lexstate \<Rightarrow> string \<Rightarrow> token list option" where
  "lex Idle [] = Some []"
| "lex (InWord w) [] = map_option (\<lambda>t. [t]) (word_token w)"
| "lex st [] = None"
| "lex st (c # cs) =
     (case lex_step st c of
        None \<Rightarrow> None
      | Some (st', ts) \<Rightarrow> map_option (\<lambda>rest. ts @ rest) (lex st' cs))"

text \<open>
  The parser keeps a stack of the containers that are open: an array with its elements
  so far, an object with its members so far and the key that waits for its value.
\<close>

datatype frame = FArr "jsval list" | FObj jsobj "string option"

datatype expect = Value | ValueOrEnd | KeyOrEnd | Key | Colon | Separator | Finished jsval

text \<open>
  A key that is an array index (the canonical decimal form of an integer below
  \<open>2^32 - 1\<close>), and the definition of a property: a key the object has keeps its
  place and takes the new value; a new index goes among the indices, which come first
  in ascending order; any other new key goes last.
\<close>

definition array_index :: "string \<Rightarrow> int option" where
  "array_index k =
     (if k \<noteq> [] \<and> list_all isDigit k \<and> (k = ''0'' \<or> take 1 k \<noteq> ''0'')
         \<and> numeral_of 10 k \<le> 4294967294
      then Some (numeral_of 10 k) else None)"

definition index_below :: "int \<Rightarrow> string \<times> jsval \<Rightarrow> bool" where
  "index_below i kv = (case array_index (fst kv) of Some j \<Rightarrow> j < i | None \<Rightarrow> False)"

definition set_property :: "string \<Rightarrow> jsval \<Rightarrow> jsobj \<Rightarrow> jsobj" where
  "set_property k v kvs =
     (if map_of kvs k \<noteq> None then AList.update k v kvs
      else case array_index k of
             None \<Rightarrow> kvs @ [(k, v)]
           | Some i \<Rightarrow> takeWhile (index_below i) kvs @ [(k, v)] @ dropWhile (index_below i) kvs)"

text \<open>A value is complete: it is the result, or it goes into the innermost container.\<close>

fun close_value :: "frame list \<Rightarrow> jsval \<Rightarrow> (frame list \<times> expect) option" where
  "close_value [] v = Some ([], Finished v)"
| "close_value (FArr acc # fs) v = Some (FArr (acc @ [v]) # fs, Separator)"
| "close_value (FObj kvs (Some k) # fs) v = Some (FObj (set_property k v kvs) None # fs, Separator)"
| "close_value (FObj kvs None # fs) v = None"

fun open_value :: "frame list \<Rightarrow> token \<Rightarrow> (frame list \<times> expect) option" where
  "open_value fs (TStr s) = close_value fs (JStr s)"
| "open_value fs (TNum n) = close_value fs (num_value n)"
| "open_value fs TTrue = close_value fs (JBool True)"
| "open_value fs TFalse = close_value fs (JBool False)"
| "open_value fs TNull = close_value fs JNull"
| "open_value fs TLBrack = Some (FArr [] # fs, ValueOrEnd)"
| "open_value fs TLBrace = Some (FObj [] None # fs, KeyOrEnd)"
| "open_value fs t = None"

fun close_array :: "frame list \<Rightarrow> (frame list \<times> expect) option" where
  "close_array (FArr acc # fs) = close_value fs (JArr acc)"
| "close_array fs = None"

fun close_object :: "frame list \<Rightarrow> (frame list \<times> expect) option" where
  "close_object (FObj kvs None # fs) = close_value fs (JObj kvs)"
| "close_object fs = None"

fun parse_step :: "frame list \<times> expect \<Rightarrow> token \<Rightarrow> (frame list \<times> expect) option" where
  "parse_step (fs, Value) t = open_value fs t"
| "parse_step (fs, ValueOrEnd) t = (if t = TRBrack then close_array fs else open_value fs t)"
| "parse_step (FObj kvs None # fs, KeyOrEnd) (TStr k) = Some (FObj kvs (Some k) # fs, Colon)"
| "parse_step (fs, KeyOrEnd) t = (if t = TRBrace then close_object fs else None)"
| "parse_step (FObj kvs None # fs, Key) (TStr k) = Some (FObj kvs (Some k) # fs, Colon)"
| "parse_step (fs, Key) t = None"
| "parse_step (fs, Colon) t = (if t = TColon then Some (fs, Value) else None)"
| "parse_step (FArr acc # fs, Separator) TComma = Some (FArr acc # fs, Value)"
| "parse_step (FObj kvs None # fs, Separator) TComma = Some (FObj kvs None # fs, Key)"
| "parse_step (fs, Separator) t =
     (if t = TRBrack then close_array fs else if t = TRBrace then close_object fs else None)"
| "parse_step (fs, Finished v) t = None"

fun parse_tokens :: "frame list \<times> expect \<Rightarrow> token list \<Rightarrow> jsval option" where
  "parse_tokens (fs, Finished v) [] = Some v"
| "parse_tokens st [] = None"
| "parse_tokens st (t # ts) =
     (case parse_step st t of None \<Rightarrow> None | Some st' \<Rightarrow> parse_tokens st' ts)"

text \<open>
  \<open>JSON.parse(v)\<close>: the argument as a string, then the JSON grammar; \<open>None\<close> is the
  SyntaxError. A key that comes twice keeps its first place and its last value.
\<close>

definition JSON_parse :: "(rat \<Rightarrow> string) \<Rightarrow> jsval \<Rightarrow> jsval option" where
  "JSON_parse n2s v =
     (case lex Idle (ToString n2s v) of
        None \<Rightarrow> None
      | Some ts \<Rightarrow> parse_tokens ([], Value) ts)"

section \<open>Loki.parseLogs\<close>

text \<open>
  The errors the engine raises by itself: reading a property of null or undefined,
  calling what is not a function, destructuring what is not iterable (TypeError), and
  \<open>toISOString\<close> on an invalid date (RangeError). Their messages are the engine's.
\<close>

definition TypeError :: error where
  "TypeError = OtherError ''TypeError'' None"

definition RangeError :: error where
  "RangeError = OtherError ''Invalid time value'' None"

text \<open>
  \<open>v.k\<close> for a value that is neither null nor undefined, for the keys the client reads:
  an object gives what it stores, an array its length and its prototype method
  \<open>values\<close>, and no other value has one of these properties. Decoded data holds no
  function: \<open>JFun\<close> comes from here only.
\<close>

fun getprop :: "jsval \<Rightarrow> string \<Rightarrow> jsval" where
  "getprop (JObj kvs) k = field kvs k"
| "getprop (JArr xs) k =
     (if k = ''length'' then JNum (of_nat (length xs))
      else if k = ''values'' then JFun ''values''
      else JUndefined)"
| "getprop v k = JUndefined"

text \<open>\<open>v.k\<close>, which throws on null and undefined, and \<open>v?.k\<close>, which gives undefined there.\<close>

definition get :: "jsval \<Rightarrow> string \<Rightarrow> error + jsval" where
  "get v k = (if v = JUndefined \<or> v = JNull then Inl TypeError else Inr (getprop v k))"

definition chain :: "jsval \<Rightarrow> string \<Rightarrow> jsval" where
  "chain v k = (if v = JUndefined \<or> v = JNull then JUndefined else getprop v k)"

record LogRecord =
  timestamp :: jsval
  timestampMs :: number
  date :: Date
  dateISO :: string
  message :: jsval
  labels :: jsval

text \<open>
  A loop whose body pushes records onto \<open>logs\<close> or throws: the records in order, or the
  first error.
\<close>

fun forEach_logs :: "('a \<Rightarrow> error + 'b list) \<Rightarrow> 'a list \<Rightarrow> error + 'b list" where
  "forEach_logs f [] = Inr []"
| "forEach_logs f (x # xs) =
     (case f x of
        Inl e \<Rightarrow> Inl e
      | Inr ys \<Rightarrow> (case forEach_logs f xs of Inl e \<Rightarrow> Inl e | Inr zs \<Rightarrow> Inr (ys @ zs)))"

text \<open>\<open>v.forEach(f)\<close>: only an array has the method.\<close>

fun forEach_of :: "jsval \<Rightarrow> (jsval \<Rightarrow> error + 'b list) \<Rightarrow> error + 'b list" where
  "forEach_of (JArr xs) f = forEach_logs f xs"
| "forEach_of v f = Inl TypeError"

text \<open>
  The body both branches run on an entry:
  \<^verbatim>\<open>if (!Array.isArray(entry) || entry.length < 2) return;
  const [timestampNs, message] = entry;
  const timestampMs = parseInt(timestampNs) / 1000000;
  const date = new Date(timestampMs);
  let parsedMessage;
  try { parsedMessage = JSON.parse(message); } catch (e) { parsedMessage = message; }
  logs.push({ timestamp: timestampNs, timestampMs: timestampMs, date: date,
              dateISO: date.toISOString(), message: parsedMessage, labels: ... });\<close>
  The division is that of two doubles. When the date is invalid, \<open>toISOString\<close>
  throws and no record is pushed.
\<close>

definition emit :: "(rat \<Rightarrow> string) \<Rightarrow> jsval \<Rightarrow> jsval \<Rightarrow> error + LogRecord list" where
  "emit n2s lbls entry =
     (case entry of
        JArr (timestampNs # msg # rest) \<Rightarrow>
          (let ms = fdiv (parseInt n2s timestampNs) 1000000;
               d = newDate ms;
               parsedMessage = (case JSON_parse n2s msg of Some v \<Rightarrow> v | None \<Rightarrow> msg)
           in case toISOString d of
                None \<Rightarrow> Inl RangeError
              | Some isoText \<Rightarrow>
                  Inr [\<lparr>timestamp = timestampNs, timestampMs = ms, date = d,
                        dateISO = isoText, message = parsedMessage, labels = lbls\<rparr>])
      | _ \<Rightarrow> Inr [])"

text \<open>\<open>x || {}\<close>\<close>

definition or_empty :: "jsval \<Rightarrow> jsval" where
  "or_empty v = (if truthy v then v else JObj [])"

text \<open>
  \<^verbatim>\<open>if (!stream.values) return;
  stream.values.forEach((entry) => { ... labels: stream.stream || {} ... });\<close>
\<close>

definition stream_logs :: "(rat \<Rightarrow> string) \<Rightarrow> jsval \<Rightarrow> error + LogRecord list" where
  "stream_logs n2s stream =
     (case get stream ''values'' of
        Inl e \<Rightarrow> Inl e
      | Inr vals \<Rightarrow>
          if \<not> truthy vals then Inr []
          else forEach_of vals (emit n2s (or_empty (getprop stream ''stream''))))"

text \<open>
  \<open>const [, logEntries] = bucket;\<close> takes the second item of an iterable: of an array, or
  of a string (its second character, as a string); anything else is not iterable.
\<close>

fun second :: "jsval \<Rightarrow> error + jsval" where
  "second (JArr xs) = Inr (case xs of x # y # ys \<Rightarrow> y | _ \<Rightarrow> JUndefined)"
| "second (JStr s) = Inr (case s of c # d # ds \<Rightarrow> JStr [d] | _ \<Rightarrow> JUndefined)"
| "second v = Inl TypeError"

text \<open>
  \<^verbatim>\<open>const entries = Array.isArray(logEntries) && Array.isArray(logEntries[0])
      ? logEntries : [logEntries];\<close>
\<close>

fun entries_of :: "jsval \<Rightarrow> jsval list" where
  "entries_of (JArr (JArr e # es)) = JArr e # es"
| "entries_of logEntries = [logEntries]"

definition bucket_logs :: "(rat \<Rightarrow> string) \<Rightarrow> jsval \<Rightarrow> jsval \<Rightarrow> error + LogRecord list" where
  "bucket_logs n2s lbls bucket =
     (case second bucket of
        Inl e \<Rightarrow> Inl e
      | Inr logEntries \<Rightarrow> forEach_logs (emit n2s lbls) (entries_of logEntries))"

text \<open>
  \<^verbatim>\<open>if (!series.values) return;
  series.values.forEach((bucket) => { ... labels: series.metric || {} ... });\<close>
\<close>

definition series_logs :: "(rat \<Rightarrow> string) \<Rightarrow> jsval \<Rightarrow> error + LogRecord list" where
  "series_logs n2s series =
     (case get series ''values'' of
        Inl e \<Rightarrow> Inl e
      | Inr vals \<Rightarrow>
          if \<not> truthy vals then Inr []
          else forEach_of vals (bucket_logs n2s (or_empty (getprop series ''metric''))))"

text \<open>
  \<^verbatim>\<open>if (!result?.response?.data?.result) return logs;
  const resultType = result.response.data.resultType;
  const results = result.response.data.result;\<close>
  Past the guard \<open>result.response.data\<close> is an object or an array, so the plain reads
  cannot throw.
\<close>

definition parseLogs :: "(rat \<Rightarrow> string) \<Rightarrow> jsval \<Rightarrow> error + LogRecord list" where
  "parseLogs n2s result =
     (let data = chain (chain result ''response'') ''data'' in
      if \<not> truthy (chain data ''result'') then Inr []
      else
        (let resultType = getprop data ''resultType'';
             results = getprop data ''result''
         in if resultType = JStr ''streams'' then forEach_of results (stream_logs n2s)
            else if resultType = JStr ''matrix'' then forEach_of results (series_logs n2s)
            else Inr []))"

section \<open>The read operations\<close>

subsection \<open>URLSearchParams\<close>

text \<open>
  The parameters are a list of name and value pairs, in the order they were appended.
  \<open>toString()\<close> is the form-urlencoded serialisation: letters, digits and \<open>*-._\<close> stay,
  a space becomes \<open>+\<close>, every other byte becomes \<open>%XX\<close>.
\<close>

definition HEXDIGIT :: "int \<Rightarrow> char" where
  "HEXDIGIT n = ''0123456789ABCDEF'' ! nat (n mod 16)"

definition urlencode_char :: "char \<Rightarrow> string" where
  "urlencode_char c =
     (if isDigit c \<or> isLower c \<or> isUpper c \<or> c \<in> {CHR ''*'', CHR ''-'', CHR ''.'', CHR ''_''}
        then [c]
      else if c = CHR 0x20 then ''+''
      else [CHR ''%'', HEXDIGIT (byte c div 16), HEXDIGIT (byte c)])"

definition urlencode :: "string \<Rightarrow> string" where
  "urlencode s = concat (map urlencode_char s)"

definition params_toString :: "(string \<times> string) list \<Rightarrow> string" where
  "params_toString ps = intercalate ''&'' (map (\<lambda>(k, v). urlencode k @ ''='' @ urlencode v) ps)"

text \<open>\<open>if (queryOptions.k) params.append('k', queryOptions.k);\<close>\<close>

definition append_if :: "(rat \<Rightarrow> string) \<Rightarrow> jsobj \<Rightarrow> string \<Rightarrow> (string \<times> string) list" where
  "append_if n2s queryOptions k =
     (if truthy (field queryOptions k) then [(k, ToString n2s (field queryOptions k))] else [])"

subsection \<open>Read\<close>

text \<open>\<open>if (this.options.orgId) headers['X-Scope-OrgID'] = this.options.orgId;\<close>\<close>

definition Read_headers :: "jsobj \<Rightarrow> jsobj" where
  "Read_headers options =
     (if truthy (field options ''orgId'') then [(''X-Scope-OrgID'', field options ''orgId'')] else [])"

text \<open>
  \<open>service.request(url, {method: 'GET', headers: this.headers()})\<close> with the handler of
  the operation: the result of the awaited call, and the calls made.
\<close>

definition GET :: "service \<Rightarrow> jsobj \<Rightarrow> string \<Rightarrow> string \<Rightarrow> (error + jsval) \<times> request list" where
  "GET service options prefix u =
     (let req = \<lparr>url = u, http_method = ''GET'', headers = Read_headers options, body = None\<rparr>
      in (case service req of
            Inl error \<Rightarrow> Inl (rethrow prefix error)
          | Inr response \<Rightarrow> Inr response, [req]))"

text \<open>What \<open>query\<close> and \<open>queryRange\<close> resolve with: the reply, or its records.\<close>

datatype reply = Raw jsval | Parsed "LogRecord list"

text \<open>
  \<^verbatim>\<open>if (queryOptions.parse) { return Loki.parseLogs(result); }
  return result;\<close>
\<close>

definition finish :: "(rat \<Rightarrow> string) \<Rightarrow> jsobj \<Rightarrow> error + jsval \<Rightarrow> error + reply" where
  "finish n2s queryOptions r =
     (case r of
        Inl e \<Rightarrow> Inl e
      | Inr res \<Rightarrow>
          if truthy (field queryOptions ''parse'')
          then (case parseLogs n2s res of Inl e \<Rightarrow> Inl e | Inr logs \<Rightarrow> Inr (Parsed logs))
          else Inr (Raw res))"

definition Read_query ::
    "(rat \<Rightarrow> string) \<Rightarrow> service \<Rightarrow> jsobj \<Rightarrow> jsval \<Rightarrow> jsobj \<Rightarrow> (error + reply) \<times> request list" where
  "Read_query n2s service options query queryOptions =
     (if \<not> truthy query then (Inl (GigapipeError ''Query parameter is required'' None), [])
      else
        (let params = [(''query'', ToString n2s query)]
                      @ append_if n2s queryOptions ''limit''
                      @ append_if n2s queryOptions ''start''
                      @ append_if n2s queryOptions ''end'';
             (r, calls) = GET service options ''Loki query failed: ''
                            (''/loki/api/v1/query?'' @ params_toString params)
         in (finish n2s queryOptions r, calls)))"

definition Read_queryRange ::
    "(rat \<Rightarrow> string) \<Rightarrow> service \<Rightarrow> jsobj \<Rightarrow> jsval \<Rightarrow> jsval \<Rightarrow> jsval \<Rightarrow> jsobj
      \<Rightarrow> (error + reply) \<times> request list" where
  "Read_queryRange n2s service options query start end queryOptions =
     (if \<not> truthy query then (Inl (GigapipeError ''Query parameter is required'' None), [])
      else if \<not> truthy start \<or> \<not> truthy end
        then (Inl (GigapipeError ''Start and end timestamps are required'' None), [])
      else
        (let params = [(''query'', ToString n2s query), (''start'', ToString n2s start),
                       (''end'', ToString n2s end)]
                      @ append_if n2s queryOptions ''step''
                      @ append_if n2s queryOptions ''limit'';
             (r, calls) = GET service options ''Loki query range failed: ''
                            (''/loki/api/v1/query_range?'' @ params_toString params)
         in (finish n2s queryOptions r, calls)))"

text \<open>
  \<^verbatim>\<open>const queryString = params.toString();
  const url = `/loki/api/v1/labels${queryString ? `?${queryString}` : ''}`;\<close>
\<close>

definition with_query :: "string \<Rightarrow> string \<Rightarrow> string" where
  "with_query path queryString = path @ (if queryString \<noteq> [] then ''?'' @ queryString else [])"

definition Read_labels ::
    "(rat \<Rightarrow> string) \<Rightarrow> service \<Rightarrow> jsobj \<Rightarrow> jsobj \<Rightarrow> (error + jsval) \<times> request list" where
  "Read_labels n2s service options queryOptions =
     (let params = append_if n2s queryOptions ''start'' @ append_if n2s queryOptions ''end''
      in GET service options ''Loki labels retrieval failed: ''
           (with_query ''/loki/api/v1/labels'' (params_toString params)))"

definition Read_labelValues ::
    "(rat \<Rightarrow> string) \<Rightarrow> service \<Rightarrow> jsobj \<Rightarrow> jsval \<Rightarrow> jsobj \<Rightarrow> (error + jsval) \<times> request list" where
  "Read_labelValues n2s service options labelName queryOptions =
     (if \<not> truthy labelName
        then (Inl (GigapipeError ''Label name parameter is required'' None), [])
      else
        (let params = append_if n2s queryOptions ''start'' @ append_if n2s queryOptions ''end''
         in GET service options ''Loki label values retrieval failed: ''
              (with_query (''/loki/api/v1/label/'' @ ToString n2s labelName @ ''/values'')
                 (params_toString params))))"

text \<open>
  \<^verbatim>\<open>if (typeof match === 'string') { params.append('match[]', match); }
  else if (Array.isArray(match)) { match.forEach(m => params.append('match[]', m)); }
  else { throw new GigapipeError('Match must be a string or array of strings'); }\<close>
  \<open>None\<close> is the throw.
\<close>

fun match_params :: "(rat \<Rightarrow> string) \<Rightarrow> jsval \<Rightarrow> (string \<times> string) list option" where
  "match_params n2s (JStr s) = Some [(''match[]'', s)]"
| "match_params n2s (JArr ms) = Some (map (\<lambda>m. (''match[]'', ToString n2s m)) ms)"
| "match_params n2s v = None"

definition Read_series ::
    "(rat \<Rightarrow> string) \<Rightarrow> service \<Rightarrow> jsobj \<Rightarrow> jsval \<Rightarrow> jsobj \<Rightarrow> (error + jsval) \<times> request list" where
  "Read_series n2s service options match queryOptions =
     (if \<not> truthy match then (Inl (GigapipeError ''Match parameter is required'' None), [])
      else
        (let params = append_if n2s queryOptions ''start'' @ append_if n2s queryOptions ''end''
         in case match_params n2s match of
              None \<Rightarrow> (Inl (GigapipeError ''Match must be a string or array of strings'' None), [])
            | Some ms \<Rightarrow>
                GET service options ''Loki series retrieval failed: ''
                  (''/loki/api/v1/series?'' @ params_toString (params @ ms))))"

section \<open>The matrix shape, in the words of the specification\<close>










section \<open>Concrete inputs\<close>

text \<open>
  A number printer for the examples: the decimal digits of an integer, which is how the
  engine prints the integers below \<open>10^21\<close>.
\<close>

definition decimal :: "rat \<Rightarrow> string" where
  "decimal r =
     (let ds = dropWhile (\<lambda>c. c = CHR ''0'') (digits 21 \<bar>\<lfloor>r\<rfloor>\<bar>)
      in (if r < 0 then ''-'' else []) @ (if ds = [] then ''0'' else ds))"

text \<open>A transport that accepts every request, and one that rejects every request.\<close>

definition accepting :: service where
  "accepting req = Inr (JObj [(''status'', JStr ''success'')])"

definition rejecting :: "error \<Rightarrow> service" where
  "rejecting e req = Inl e"

text \<open>A store whose buffer at address 0 is empty and whose other buffers hold one entry.\<close>

definition buffers :: store where
  "buffers a =
     \<lparr>stream_labels = JObj [(''job'', JStr ''api'')],
      entries = (if a = 0 then [] else [JArr [JStr ''1000000000'', JStr ''hello'']]),
      confirmed = []\<rparr>"

text \<open>A decoded reply of a query: \<open>{response: {data: {resultType, result}}}\<close>.\<close>

definition response_of :: "string \<Rightarrow> jsval \<Rightarrow> jsval" where
  "response_of resultType res =
     JObj [(''response'', JObj [(''data'', JObj [(''resultType'', JStr resultType), (''result'', res)])])]"



section \<open>Properties of push\<close>

text \<open>
  What \<open>streams.every\<close> returns: on an array of instances, the buffers with a pending
  entry are collected in order; otherwise the result is false, and only \<open>collect\<close> was
  called meanwhile.
\<close>

lemma every_Stream_valid:
  "list_all isStream xs \<Longrightarrow>
     every_Stream st xs payload tr =
       (True, payload @ map (\<lambda>a. collect (st a)) (pending st (instances xs)),
        tr @ map Collected (pending st (instances xs)))"
proof (induction xs arbitrary: payload tr)
  case Nil
  then show ?case by (simp add: pending_def)
next
  case (Cons x xs)
  then obtain a where x: "x = Inst a" by (cases x) auto
  with Cons show ?case by (simp add: pending_def)
qed

lemma every_Stream_invalid:
  "\<not> list_all isStream xs \<Longrightarrow>
     \<exists>payload' as. every_Stream st xs payload tr = (False, payload', tr @ map Collected as)"
proof (induction xs arbitrary: payload tr)
  case Nil
  then show ?case by simp
next
  case (Cons x xs)
  show ?case
  proof (cases x)
    case (Inst a)
    with Cons.prems have "\<not> list_all isStream xs" by simp
    from Cons.IH[OF this, of "payload @ [collect (st a)]" "tr @ [Collected a]"]
    obtain p1 as1 where 1: "every_Stream st xs (payload @ [collect (st a)]) (tr @ [Collected a])
        = (False, p1, (tr @ [Collected a]) @ map Collected as1)" by blast
    from Cons.IH[OF \<open>\<not> list_all isStream xs\<close>, of payload tr]
    obtain p2 as2 where 2: "every_Stream st xs payload tr = (False, p2, tr @ map Collected as2)"
      by blast
    show ?thesis
    proof (cases "entries (st a) = []")
      case True
      with Inst 2 show ?thesis by auto
    next
      case False
      with Inst 1 have "every_Stream st (x # xs) payload tr = (False, p1, tr @ map Collected (a # as1))"
        by simp
      then show ?thesis by blast
    qed
  next
    case (Arr ys)
    then have "every_Stream st (x # xs) payload tr = (False, payload, tr @ map Collected [])" by simp
    then show ?thesis by blast
  next
    case (Plain v)
    then have "every_Stream st (x # xs) payload tr = (False, payload, tr @ map Collected [])" by simp
    then show ?thesis by blast
  qed
qed

lemma instances_all: "list_all isStream xs \<Longrightarrow> map Inst (instances xs) = xs"
proof (induction xs)
  case Nil
  then show ?case by simp
next
  case (Cons x xs)
  then show ?case by (cases x) auto
qed

lemma network_calls_append: "network_calls (es @ fs) = network_calls es @ network_calls fs"
  by (induction es rule: network_calls.induct) auto

lemma network_calls_Collected: "network_calls (map Collected as) = []"
  by (induction as) auto

lemma network_calls_Confirmed: "network_calls (map Confirmed as) = []"
  by (induction as) auto

lemma network_calls_Undone: "network_calls (map Undone as) = []"
  by (induction as) auto

lemma push_valid:
  assumes "elements streams = Some xs" and "list_all isStream xs"
  shows "push n2s service st streams options =
     (let as = instances xs;
          req = push_request n2s options (map (\<lambda>a. collect (st a)) (pending st as))
      in case service req of
           Inr response \<Rightarrow>
             \<lparr>outcome = Inr response, final = forEach confirm as st,
              trace = map Collected (pending st as) @ [Requested req] @ map Confirmed as\<rparr>
         | Inl error \<Rightarrow>
             \<lparr>outcome = Inl (rethrow ''Loki push failed: '' error), final = forEach undo as st,
              trace = map Collected (pending st as) @ [Requested req] @ map Undone as\<rparr>)"
  using assms
  by (simp add: push_def every_Stream_valid[where payload="[]" and tr="[]", simplified]
      push_request_def Let_def split: sum.splits)

lemma push_invalid:
  assumes "elements streams = None \<or> (\<exists>xs. elements streams = Some xs \<and> \<not> list_all isStream xs)"
  shows "\<exists>as. push n2s service st streams options =
     \<lparr>outcome = Inl (GigapipeError ''Streams must be an array of Stream instances'' None),
      final = st, trace = map Collected as\<rparr>"
proof -
  have none: "elements streams = None \<Longrightarrow> ?thesis"
  proof -
    assume "elements streams = None"
    then have "push n2s service st streams options =
     \<lparr>outcome = Inl (GigapipeError ''Streams must be an array of Stream instances'' None),
      final = st, trace = map Collected []\<rparr>" by (simp add: push_def)
    then show ?thesis by blast
  qed
  have some: "elements streams = Some xs \<Longrightarrow> \<not> list_all isStream xs \<Longrightarrow> ?thesis" for xs
  proof -
    assume 1: "elements streams = Some xs" and 2: "\<not> list_all isStream xs"
    from every_Stream_invalid[OF 2, of st "[]" "[]"]
    obtain p as where "every_Stream st xs [] [] = (False, p, map Collected as)" by auto
    with 1 show ?thesis by (auto simp: push_def)
  qed
  from assms none some show ?thesis by blast
qed

lemma finalization_after_Collected:
  "map Collected ps @ Requested req # fs = pre @ e # post \<Longrightarrow>
   (\<forall>a. e \<noteq> Collected a) \<Longrightarrow> (\<forall>r. e \<noteq> Requested r) \<Longrightarrow> network_calls pre \<noteq> []"
proof (induction ps arbitrary: pre)
  case Nil
  then show ?case by (cases pre) auto
next
  case (Cons p ps)
  then show ?case by (cases pre) auto
qed

lemma push_finalizes_after_call:
  assumes "trace (push n2s service st streams options) = pre @ e # post"
    and "(\<exists>a. e = Confirmed a) \<or> (\<exists>a. e = Undone a)"
  shows "network_calls pre \<noteq> []"
proof (cases "elements streams = None \<or> (\<exists>xs. elements streams = Some xs \<and> \<not> list_all isStream xs)")
  case True
  from push_invalid[OF True, of n2s service st options]
  obtain as where "trace (push n2s service st streams options) = map Collected as" by auto
  with assms(1) have "e \<in> set (map Collected as)" by (metis in_set_conv_decomp)
  with assms(2) show ?thesis by auto
next
  case False
  then obtain xs where xs: "elements streams = Some xs" "list_all isStream xs" by auto
  from assms(2) have ne: "(\<forall>a. e \<noteq> Collected a)" "(\<forall>r. e \<noteq> Requested r)" by auto
  show ?thesis
  proof (cases "service (push_request n2s options (map (\<lambda>a. collect (st a)) (pending st (instances xs))))")
    case (Inl err)
    with push_valid[OF xs, of n2s service st options] assms(1)
    have "map Collected (pending st (instances xs))
           @ Requested (push_request n2s options (map (\<lambda>a. collect (st a)) (pending st (instances xs))))
           # map Undone (instances xs) = pre @ e # post"
      by (simp add: Let_def)
    from finalization_after_Collected[OF this ne] show ?thesis .
  next
    case (Inr resp)
    with push_valid[OF xs, of n2s service st options] assms(1)
    have "map Collected (pending st (instances xs))
           @ Requested (push_request n2s options (map (\<lambda>a. collect (st a)) (pending st (instances xs))))
           # map Confirmed (instances xs) = pre @ e # post"
      by (simp add: Let_def)
    from finalization_after_Collected[OF this ne] show ?thesis .
  qed
qed

lemma push_valid_calls:
  assumes "elements streams = Some xs" and "list_all isStream xs"
  shows "network_calls (trace (push n2s service st streams options)) =
           [push_request n2s options (map (\<lambda>a. collect (st a)) (pending st (instances xs)))]"
  using push_valid[OF assms, of n2s service st options]
  by (simp add: Let_def network_calls_append network_calls_Collected network_calls_Confirmed
      network_calls_Undone split: sum.splits)

lemma push_never_mixed:
  "\<not> (Confirmed a \<in> set (trace (push n2s service st streams options))
      \<and> Undone b \<in> set (trace (push n2s service st streams options)))"
proof (cases "elements streams = None \<or> (\<exists>xs. elements streams = Some xs \<and> \<not> list_all isStream xs)")
  case True
  from push_invalid[OF True, of n2s service st options] show ?thesis by auto
next
  case False
  then obtain xs where xs: "elements streams = Some xs" "list_all isStream xs" by auto
  from push_valid[OF xs, of n2s service st options] show ?thesis
    by (auto simp: Let_def split: sum.splits)
qed

lemma stringify_no_streams: "stringify n2s (JObj [(''streams'', JArr [])]) = Some ''{\"streams\":[]}''"
  by (simp add: quote_def quote_char_def)

lemma forEach_outside: "a \<notin> set as \<Longrightarrow> forEach f as st a = st a"
  by (induction as arbitrary: st) auto

lemma forEach_inside:
  assumes "\<And>s. f (f s) = f s" and "a \<in> set as"
  shows "forEach f as st a = f (st a)"
  using assms(2)
proof (induction as arbitrary: st)
  case Nil
  then show ?case by simp
next
  case (Cons b bs)
  show ?case
  proof (cases "a \<in> set bs")
    case True
    from Cons.IH[OF True, of "st(b := f (st b))"]
    have "forEach f bs (st(b := f (st b))) a = f ((st(b := f (st b))) a)" .
    also have "\<dots> = f (st a)" using assms(1) by simp
    finally show ?thesis by simp
  next
    case False
    with Cons.prems have "a = b" by simp
    with False show ?thesis by (simp add: forEach_outside)
  qed
qed

lemma confirm_confirm: "confirm (confirm s) = confirm s"
  by (simp add: confirm_def)

lemma forEach_undo: "forEach undo as st = st"
  by (induction as arbitrary: st) (auto simp: undo_def)

lemma stringify_streams:
  "stringify n2s (JObj [(''streams'', JArr vs)]) =
     Some (''{\"streams\":['' @ intercalate '',''
             (map (\<lambda>v. case stringify n2s v of None \<Rightarrow> ''null'' | Some t \<Rightarrow> t) vs) @ '']}'')"
  by (simp add: quote_def quote_char_def)

lemma push_example_call:
  "network_calls (trace (push decimal accepting buffers (Arr [Inst 0, Inst 1]) [])) =
     [\<lparr>url = ''/loki/api/v1/push'', http_method = ''POST'', headers = [],
       body = Some ''{\"streams\":[{\"labels\":{\"job\":\"api\"},\"entries\":[[\"1000000000\",\"hello\"]]}]}''\<rparr>]"
  by code_simp

text \<open>
  C1. When the input is an array of \<open>Stream\<close> instances, \<open>push\<close> makes its call and then
  finalizes every buffer of the array in input order. When the call resolves, \<open>confirm\<close>
  is called on each, the reply is the result, and every buffer of the array is left with
  no pending entry, its former pending entries after its confirmed ones; a buffer that
  is not in the array is untouched. When the call rejects, \<open>undo\<close> is called on each,
  the error is thrown on (as it is when it is a \<open>GigapipeError\<close>, wrapped otherwise), and
  the store is what it was. No call of \<open>push\<close>, with any input, both confirms a buffer
  and undoes one.
\<close>

theorem push_confirms_all_or_undoes_all:
  assumes "elements streams = Some xs" and "list_all isStream xs"
  shows "map Inst (instances xs) = xs
    \<and> (case service (push_request n2s options
                      (map (\<lambda>a. collect (st a)) (pending st (instances xs)))) of
         Inr response \<Rightarrow>
           outcome (push n2s service st streams options) = Inr response
           \<and> trace (push n2s service st streams options) =
               map Collected (pending st (instances xs))
               @ [Requested (push_request n2s options
                    (map (\<lambda>a. collect (st a)) (pending st (instances xs))))]
               @ map Confirmed (instances xs)
           \<and> (\<forall>a \<in> set (instances xs).
                 entries (final (push n2s service st streams options) a) = []
                 \<and> confirmed (final (push n2s service st streams options) a) =
                     confirmed (st a) @ entries (st a)
                 \<and> stream_labels (final (push n2s service st streams options) a) =
                     stream_labels (st a))
           \<and> (\<forall>a. a \<notin> set (instances xs) \<longrightarrow>
                 final (push n2s service st streams options) a = st a)
       | Inl error \<Rightarrow>
           outcome (push n2s service st streams options) =
             Inl (if isGigapipeError error then error
                  else GigapipeError (''Loki push failed: '' @ error_message error) (statusCode error))
           \<and> trace (push n2s service st streams options) =
               map Collected (pending st (instances xs))
               @ [Requested (push_request n2s options
                    (map (\<lambda>a. collect (st a)) (pending st (instances xs))))]
               @ map Undone (instances xs)
           \<and> final (push n2s service st streams options) = st)
    \<and> (\<forall>service' st' streams' options' a b.
          \<not> (Confirmed a \<in> set (trace (push n2s service' st' streams' options'))
             \<and> Undone b \<in> set (trace (push n2s service' st' streams' options'))))"
proof (intro conjI)
  show "map Inst (instances xs) = xs" using assms(2) by (rule instances_all)
next
  have c: "entries (forEach confirm (instances xs) st a) = []
      \<and> confirmed (forEach confirm (instances xs) st a) = confirmed (st a) @ entries (st a)
      \<and> stream_labels (forEach confirm (instances xs) st a) = stream_labels (st a)"
    if "a \<in> set (instances xs)" for a
    using forEach_inside[of confirm a "instances xs" st, OF confirm_confirm that]
    by (simp add: confirm_def)
  have o: "forEach confirm (instances xs) st a = st a" if "a \<notin> set (instances xs)" for a
    using that by (rule forEach_outside)
  show "case service (push_request n2s options
                      (map (\<lambda>a. collect (st a)) (pending st (instances xs)))) of
         Inr response \<Rightarrow>
           outcome (push n2s service st streams options) = Inr response
           \<and> trace (push n2s service st streams options) =
               map Collected (pending st (instances xs))
               @ [Requested (push_request n2s options
                    (map (\<lambda>a. collect (st a)) (pending st (instances xs))))]
               @ map Confirmed (instances xs)
           \<and> (\<forall>a \<in> set (instances xs).
                 entries (final (push n2s service st streams options) a) = []
                 \<and> confirmed (final (push n2s service st streams options) a) =
                     confirmed (st a) @ entries (st a)
                 \<and> stream_labels (final (push n2s service st streams options) a) =
                     stream_labels (st a))
           \<and> (\<forall>a. a \<notin> set (instances xs) \<longrightarrow>
                 final (push n2s service st streams options) a = st a)
       | Inl error \<Rightarrow>
           outcome (push n2s service st streams options) =
             Inl (if isGigapipeError error then error
                  else GigapipeError (''Loki push failed: '' @ error_message error) (statusCode error))
           \<and> trace (push n2s service st streams options) =
               map Collected (pending st (instances xs))
               @ [Requested (push_request n2s options
                    (map (\<lambda>a. collect (st a)) (pending st (instances xs))))]
               @ map Undone (instances xs)
           \<and> final (push n2s service st streams options) = st"
    using push_valid[OF assms, of n2s service st options] c o
    by (simp add: Let_def rethrow_def forEach_undo split: sum.splits)
next
  show "\<forall>service' st' streams' options' a b.
          \<not> (Confirmed a \<in> set (trace (push n2s service' st' streams' options'))
             \<and> Undone b \<in> set (trace (push n2s service' st' streams' options')))"
    using push_never_mixed by blast
qed

theorem push_confirms_all_or_undoes_all_witness:
  "elements (Arr [Inst 0, Inst 1, Inst 0]) = Some [Inst 0, Inst 1, Inst 0]
   \<and> list_all isStream [Inst 0, Inst 1, Inst 0]
   \<and> outcome (push decimal accepting buffers (Arr [Inst 0, Inst 1, Inst 0]) []) =
       Inr (JObj [(''status'', JStr ''success'')])
   \<and> trace (push decimal accepting buffers (Arr [Inst 0, Inst 1, Inst 0]) []) =
       [Collected 1, Requested (push_request decimal [] [collect (buffers 1)]),
        Confirmed 0, Confirmed 1, Confirmed 0]
   \<and> entries (buffers 1) = [JArr [JStr ''1000000000'', JStr ''hello'']]
   \<and> entries (final (push decimal accepting buffers (Arr [Inst 0, Inst 1, Inst 0]) []) 1) = []
   \<and> confirmed (final (push decimal accepting buffers (Arr [Inst 0, Inst 1, Inst 0]) []) 1) =
       [JArr [JStr ''1000000000'', JStr ''hello'']]
   \<and> final (push decimal accepting buffers (Arr [Inst 0, Inst 1, Inst 0]) []) 2 = buffers 2
   \<and> outcome (push decimal (rejecting (OtherError ''timeout'' (Some 504))) buffers
                 (Arr [Inst 0, Inst 1, Inst 0]) []) =
       Inl (GigapipeError ''Loki push failed: timeout'' (Some 504))
   \<and> trace (push decimal (rejecting (OtherError ''timeout'' (Some 504))) buffers
                 (Arr [Inst 0, Inst 1, Inst 0]) []) =
       [Collected 1, Requested (push_request decimal [] [collect (buffers 1)]),
        Undone 0, Undone 1, Undone 0]
   \<and> final (push decimal (rejecting (OtherError ''timeout'' (Some 504))) buffers
                 (Arr [Inst 0, Inst 1, Inst 0]) []) = buffers"
proof -
  have h1: "elements (Arr [Inst 0, Inst 1, Inst 0]) = Some [Inst 0, Inst 1, Inst 0]" by simp
  have h2: "list_all isStream [Inst 0, Inst 1, Inst 0]" by simp
  have b1: "entries (buffers 1) = [JArr [JStr ''1000000000'', JStr ''hello'']]"
    "confirmed (buffers 1) = []" "entries (buffers 0) = []"
    by (simp_all add: buffers_def)
  show ?thesis
    using h1 h2 b1
      push_confirms_all_or_undoes_all[OF h1 h2, where service = accepting and ?n2s = decimal
        and options = "[]" and st = buffers]
      push_confirms_all_or_undoes_all[OF h1 h2,
        where service = "rejecting (OtherError ''timeout'' (Some 504))" and ?n2s = decimal
        and options = "[]" and st = buffers]
    by (simp add: accepting_def rejecting_def pending_def)
qed

text \<open>
  C3. When the input is an array of \<open>Stream\<close> instances, \<open>push\<close> makes exactly one call,
  a POST on the push path, whose body is the JSON text of \<open>{streams: [...]}\<close>: the
  characters \<open>{"streams":[\<close>, then the texts of the buffers that have a pending entry,
  in input order and separated by commas, then \<open>]}\<close>; an empty buffer gives no
  element. Every buffer of the array, empty or not, is confirmed when the call resolves
  and undone when it rejects. When no buffer has a pending entry (the empty array too)
  the one call carries an empty streams array. An array with an empty buffer and a
  buffer holding the entry \<open>["1000000000", "hello"]\<close> under the label \<open>job=api\<close> sends the
  one element of the second.
\<close>

theorem push_payload_skips_empty_buffers:
  assumes "elements streams = Some xs" and "list_all isStream xs"
  shows "(\<exists>req. network_calls (trace (push n2s service st streams options)) = [req]
            \<and> url req = ''/loki/api/v1/push'' \<and> http_method req = ''POST''
            \<and> body req = stringify n2s (JObj [(''streams'',
                 JArr (map (\<lambda>a. collect (st a))
                        (filter (\<lambda>a. entries (st a) \<noteq> []) (instances xs))))])
            \<and> body req = Some (''{\"streams\":['' @ intercalate '',''
                 (map (\<lambda>a. case stringify n2s (collect (st a)) of
                              None \<Rightarrow> ''null'' | Some t \<Rightarrow> t)
                    (filter (\<lambda>a. entries (st a) \<noteq> []) (instances xs))) @ '']}'')
            \<and> ((\<forall>a \<in> set (instances xs). entries (st a) = []) \<longrightarrow>
                  body req = Some ''{\"streams\":[]}'')
            \<and> (case service req of
                  Inr response \<Rightarrow>
                    (\<forall>a \<in> set (instances xs).
                       final (push n2s service st streams options) a = confirm (st a))
                | Inl error \<Rightarrow>
                    (\<forall>a \<in> set (instances xs).
                       final (push n2s service st streams options) a = undo (st a))))
    \<and> (\<forall>a \<in> set (instances xs).
          Confirmed a \<in> set (trace (push n2s service st streams options))
          \<or> Undone a \<in> set (trace (push n2s service st streams options)))
    \<and> network_calls (trace (push decimal accepting buffers (Arr [Inst 0, Inst 1]) [])) =
        [\<lparr>url = ''/loki/api/v1/push'', http_method = ''POST'', headers = [],
          body = Some ''{\"streams\":[{\"labels\":{\"job\":\"api\"},\"entries\":[[\"1000000000\",\"hello\"]]}]}''\<rparr>]"
proof (intro conjI)
  let ?req = "push_request n2s options (map (\<lambda>a. collect (st a)) (pending st (instances xs)))"
  have calls: "network_calls (trace (push n2s service st streams options)) = [?req]"
    using assms by (rule push_valid_calls)
  have u: "url ?req = ''/loki/api/v1/push''" "http_method ?req = ''POST''"
    by (simp_all add: push_request_def)
  have b1: "body ?req = stringify n2s (JObj [(''streams'',
                 JArr (map (\<lambda>a. collect (st a))
                        (filter (\<lambda>a. entries (st a) \<noteq> []) (instances xs))))])"
    by (simp add: push_request_def pending_def del: stringify.simps)
  have b2: "body ?req = Some (''{\"streams\":['' @ intercalate '',''
                 (map (\<lambda>a. case stringify n2s (collect (st a)) of
                              None \<Rightarrow> ''null'' | Some t \<Rightarrow> t)
                    (filter (\<lambda>a. entries (st a) \<noteq> []) (instances xs))) @ '']}'')"
    unfolding b1 stringify_streams by (simp add: comp_def del: stringify.simps)
  have b3: "(\<forall>a \<in> set (instances xs). entries (st a) = []) \<longrightarrow>
                  body ?req = Some ''{\"streams\":[]}''"
  proof
    assume "\<forall>a \<in> set (instances xs). entries (st a) = []"
    then have "filter (\<lambda>a. entries (st a) \<noteq> []) (instances xs) = []"
      by (simp add: filter_empty_conv)
    then show "body ?req = Some ''{\"streams\":[]}''"
      unfolding b2 by simp
  qed
  have f: "case service ?req of
                  Inr response \<Rightarrow>
                    (\<forall>a \<in> set (instances xs).
                       final (push n2s service st streams options) a = confirm (st a))
                | Inl error \<Rightarrow>
                    (\<forall>a \<in> set (instances xs).
                       final (push n2s service st streams options) a = undo (st a))"
    using push_valid[OF assms, of n2s service st options]
      forEach_inside[of confirm _ "instances xs" st, OF confirm_confirm]
    by (simp add: Let_def forEach_undo undo_def split: sum.splits)
  from calls u b1 b2 b3 f
  show "\<exists>req. network_calls (trace (push n2s service st streams options)) = [req]
            \<and> url req = ''/loki/api/v1/push'' \<and> http_method req = ''POST''
            \<and> body req = stringify n2s (JObj [(''streams'',
                 JArr (map (\<lambda>a. collect (st a))
                        (filter (\<lambda>a. entries (st a) \<noteq> []) (instances xs))))])
            \<and> body req = Some (''{\"streams\":['' @ intercalate '',''
                 (map (\<lambda>a. case stringify n2s (collect (st a)) of
                              None \<Rightarrow> ''null'' | Some t \<Rightarrow> t)
                    (filter (\<lambda>a. entries (st a) \<noteq> []) (instances xs))) @ '']}'')
            \<and> ((\<forall>a \<in> set (instances xs). entries (st a) = []) \<longrightarrow>
                  body req = Some ''{\"streams\":[]}'')
            \<and> (case service req of
                  Inr response \<Rightarrow>
                    (\<forall>a \<in> set (instances xs).
                       final (push n2s service st streams options) a = confirm (st a))
                | Inl error \<Rightarrow>
                    (\<forall>a \<in> set (instances xs).
                       final (push n2s service st streams options) a = undo (st a)))"
    by blast
next
  show "\<forall>a \<in> set (instances xs).
          Confirmed a \<in> set (trace (push n2s service st streams options))
          \<or> Undone a \<in> set (trace (push n2s service st streams options))"
    using push_valid[OF assms, of n2s service st options]
    by (auto simp: Let_def split: sum.splits)
next
  show "network_calls (trace (push decimal accepting buffers (Arr [Inst 0, Inst 1]) [])) =
        [\<lparr>url = ''/loki/api/v1/push'', http_method = ''POST'', headers = [],
          body = Some ''{\"streams\":[{\"labels\":{\"job\":\"api\"},\"entries\":[[\"1000000000\",\"hello\"]]}]}''\<rparr>]"
    by (rule push_example_call)
qed

theorem push_payload_skips_empty_buffers_witness:
  "elements (Arr [Inst 0, Inst 1, Inst 2]) = Some [Inst 0, Inst 1, Inst 2]
   \<and> list_all isStream [Inst 0, Inst 1, Inst 2]
   \<and> entries (buffers 0) = []
   \<and> entries (buffers 1) = [JArr [JStr ''1000000000'', JStr ''hello'']]
   \<and> (\<exists>req. network_calls (trace (push decimal accepting buffers (Arr [Inst 0, Inst 1, Inst 2]) [])) = [req]
         \<and> body req = Some ''{\"streams\":[{\"labels\":{\"job\":\"api\"},\"entries\":[[\"1000000000\",\"hello\"]]},{\"labels\":{\"job\":\"api\"},\"entries\":[[\"1000000000\",\"hello\"]]}]}'')
   \<and> final (push decimal accepting buffers (Arr [Inst 0, Inst 1, Inst 2]) []) 0 = confirm (buffers 0)
   \<and> final (push decimal accepting buffers (Arr [Inst 0, Inst 1, Inst 2]) []) 1 = confirm (buffers 1)
   \<and> confirm (buffers 1) \<noteq> buffers 1
   \<and> elements (Arr [Inst 0, Inst 0]) = Some [Inst 0, Inst 0]
   \<and> list_all isStream [Inst 0, Inst 0]
   \<and> instances [Inst 0, Inst 0] = [0, 0]
   \<and> (\<exists>req. network_calls (trace (push decimal accepting buffers (Arr [Inst 0, Inst 0]) [])) = [req]
         \<and> body req = Some ''{\"streams\":[]}'')
   \<and> elements (Plain (JArr [])) = Some []
   \<and> list_all isStream []
   \<and> (\<exists>req. network_calls (trace (push decimal accepting buffers (Plain (JArr [])) [])) = [req]
         \<and> body req = Some ''{\"streams\":[]}'')"
proof -
  have g1: "elements (Arr [Inst 0, Inst 1, Inst 2]) = Some [Inst 0, Inst 1, Inst 2]" by simp
  have g2: "list_all isStream [Inst 0, Inst 1, Inst 2]" by simp
  have e0: "entries (buffers 0) = []" by (simp add: buffers_def)
  have e1: "entries (buffers 1) = [JArr [JStr ''1000000000'', JStr ''hello'']]"
    by (simp add: buffers_def)
  have ne: "confirm (buffers 1) \<noteq> buffers 1"
  proof
    assume "confirm (buffers 1) = buffers 1"
    then have "entries (confirm (buffers 1)) = entries (buffers 1)" by simp
    with e1 show False by (simp add: confirm_def)
  qed
  have t: "''{\"streams\":['' @ intercalate '',''
                 (map (\<lambda>a. case stringify decimal (collect (buffers a)) of
                              None \<Rightarrow> ''null'' | Some t \<Rightarrow> t)
                    (filter (\<lambda>a. entries (buffers a) \<noteq> []) (instances [Inst 0, Inst 1, Inst 2])))
                 @ '']}'' =
     ''{\"streams\":[{\"labels\":{\"job\":\"api\"},\"entries\":[[\"1000000000\",\"hello\"]]},{\"labels\":{\"job\":\"api\"},\"entries\":[[\"1000000000\",\"hello\"]]}]}''"
    by code_simp
  have acc: "accepting req = Inr (JObj [(''status'', JStr ''success'')])" for req
    by (simp add: accepting_def)
  from push_payload_skips_empty_buffers[OF g1 g2, where service = accepting and ?n2s = decimal
        and options = "[]" and st = buffers]
  obtain req where req:
    "network_calls (trace (push decimal accepting buffers (Arr [Inst 0, Inst 1, Inst 2]) [])) = [req]"
    "body req = Some (''{\"streams\":['' @ intercalate '',''
                 (map (\<lambda>a. case stringify decimal (collect (buffers a)) of
                              None \<Rightarrow> ''null'' | Some t \<Rightarrow> t)
                    (filter (\<lambda>a. entries (buffers a) \<noteq> []) (instances [Inst 0, Inst 1, Inst 2])))
                 @ '']}'')"
    "case accepting req of
       Inr response \<Rightarrow>
         (\<forall>a \<in> set (instances [Inst 0, Inst 1, Inst 2]).
            final (push decimal accepting buffers (Arr [Inst 0, Inst 1, Inst 2]) []) a = confirm (buffers a))
     | Inl error \<Rightarrow>
         (\<forall>a \<in> set (instances [Inst 0, Inst 1, Inst 2]).
            final (push decimal accepting buffers (Arr [Inst 0, Inst 1, Inst 2]) []) a = undo (buffers a))"
    by blast
  from req(3) have fin: "final (push decimal accepting buffers (Arr [Inst 0, Inst 1, Inst 2]) []) 0 = confirm (buffers 0)"
    "final (push decimal accepting buffers (Arr [Inst 0, Inst 1, Inst 2]) []) 1 = confirm (buffers 1)"
    by (simp_all add: acc)
  from req(1) req(2)[unfolded t]
  have a: "\<exists>req. network_calls (trace (push decimal accepting buffers (Arr [Inst 0, Inst 1, Inst 2]) [])) = [req]
         \<and> body req = Some ''{\"streams\":[{\"labels\":{\"job\":\"api\"},\"entries\":[[\"1000000000\",\"hello\"]]},{\"labels\":{\"job\":\"api\"},\"entries\":[[\"1000000000\",\"hello\"]]}]}''"
    by blast
  have h1: "elements (Arr [Inst 0, Inst 0]) = Some [Inst 0, Inst 0]" by simp
  have h2: "list_all isStream [Inst 0, Inst 0]" by simp
  have h3: "\<forall>a \<in> set (instances [Inst 0, Inst 0]). entries (buffers a) = []"
    by (simp add: buffers_def)
  have h4: "elements (Plain (JArr [])) = Some []" by simp
  have h5: "list_all isStream []" by simp
  have h6: "instances [Inst 0, Inst 0] = [0, 0]" by simp
  from push_payload_skips_empty_buffers[OF h1 h2, where service = accepting and ?n2s = decimal
        and options = "[]" and st = buffers] h3
  have b: "\<exists>req. network_calls (trace (push decimal accepting buffers (Arr [Inst 0, Inst 0]) [])) = [req]
         \<and> body req = Some ''{\"streams\":[]}''"
    by blast
  from push_payload_skips_empty_buffers[OF h4 h5, where service = accepting and ?n2s = decimal
        and options = "[]" and st = buffers]
  have c: "\<exists>req. network_calls (trace (push decimal accepting buffers (Plain (JArr [])) [])) = [req]
         \<and> body req = Some ''{\"streams\":[]}''"
    by auto
  from g1 g2 e0 e1 a fin ne h1 h2 h6 b h4 h5 c show ?thesis by blast
qed

text \<open>
  C4. When the input is not an array, or is an array with an element that is not a
  \<open>Stream\<close> instance, \<open>push\<close> throws the \<open>GigapipeError\<close> for invalid input
  (\<open>Streams must be an array of Stream instances\<close>) and makes no network call.
\<close>

theorem push_rejects_invalid_input:
  assumes "elements streams = None \<or> (\<exists>xs. elements streams = Some xs \<and> \<not> list_all isStream xs)"
  shows "outcome (push n2s service st streams options) =
           Inl (GigapipeError ''Streams must be an array of Stream instances'' None)
         \<and> network_calls (trace (push n2s service st streams options)) = []"
proof -
  from push_invalid[OF assms, of n2s service st options]
  obtain as where "push n2s service st streams options =
     \<lparr>outcome = Inl (GigapipeError ''Streams must be an array of Stream instances'' None),
      final = st, trace = map Collected as\<rparr>" by blast
  then show ?thesis by (simp add: network_calls_Collected)
qed

theorem push_rejects_invalid_input_witness:
  "elements (Arr [Inst 1, Plain JNull, Inst 0]) = Some [Inst 1, Plain JNull, Inst 0]
   \<and> \<not> list_all isStream [Inst 1, Plain JNull, Inst 0]
   \<and> outcome (push decimal accepting buffers (Arr [Inst 1, Plain JNull, Inst 0]) []) =
           Inl (GigapipeError ''Streams must be an array of Stream instances'' None)
   \<and> network_calls (trace (push decimal accepting buffers (Arr [Inst 1, Plain JNull, Inst 0]) [])) = []
   \<and> elements (Plain (JStr ''stream'')) = None
   \<and> outcome (push decimal accepting buffers (Plain (JStr ''stream'')) []) =
           Inl (GigapipeError ''Streams must be an array of Stream instances'' None)
   \<and> network_calls (trace (push decimal accepting buffers (Plain (JStr ''stream'')) [])) = []"
proof -
  have h1: "elements (Arr [Inst 1, Plain JNull, Inst 0]) = None
      \<or> (\<exists>xs. elements (Arr [Inst 1, Plain JNull, Inst 0]) = Some xs \<and> \<not> list_all isStream xs)"
    by simp
  have h2: "elements (Plain (JStr ''stream'')) = None
      \<or> (\<exists>xs. elements (Plain (JStr ''stream'')) = Some xs \<and> \<not> list_all isStream xs)"
    by simp
  show ?thesis
    using push_rejects_invalid_input[OF h1, of decimal accepting buffers "[]"]
          push_rejects_invalid_input[OF h2, of decimal accepting buffers "[]"]
    by simp
qed

text \<open>
  C10. When \<open>push\<close> rejects its input as invalid, it calls neither \<open>confirm\<close> nor \<open>undo\<close>
  on any buffer, and the store is what it was before the call. In every call of \<open>push\<close>
  a \<open>confirm\<close> or an \<open>undo\<close> comes after the network call.
\<close>

theorem push_invalid_input_touches_no_buffer:
  assumes "elements streams = None \<or> (\<exists>xs. elements streams = Some xs \<and> \<not> list_all isStream xs)"
  shows "(\<forall>a. Confirmed a \<notin> set (trace (push n2s service st streams options))
              \<and> Undone a \<notin> set (trace (push n2s service st streams options)))
         \<and> final (push n2s service st streams options) = st
         \<and> (\<forall>service' st' streams' options' pre e post.
               trace (push n2s service' st' streams' options') = pre @ e # post
               \<and> ((\<exists>a. e = Confirmed a) \<or> (\<exists>a. e = Undone a))
               \<longrightarrow> network_calls pre \<noteq> [])"
proof -
  from push_invalid[OF assms, of n2s service st options]
  obtain as where "push n2s service st streams options =
     \<lparr>outcome = Inl (GigapipeError ''Streams must be an array of Stream instances'' None),
      final = st, trace = map Collected as\<rparr>" by blast
  then have "(\<forall>a. Confirmed a \<notin> set (trace (push n2s service st streams options))
              \<and> Undone a \<notin> set (trace (push n2s service st streams options)))
         \<and> final (push n2s service st streams options) = st"
    by auto
  with push_finalizes_after_call show ?thesis by blast
qed

theorem push_invalid_input_touches_no_buffer_witness:
  "elements (Arr [Inst 1, Plain (JStr ''x'')]) = Some [Inst 1, Plain (JStr ''x'')]
   \<and> \<not> list_all isStream [Inst 1, Plain (JStr ''x'')]
   \<and> (\<forall>a. Confirmed a \<notin> set (trace (push decimal accepting buffers (Arr [Inst 1, Plain (JStr ''x'')]) [])) 
          \<and> Undone a \<notin> set (trace (push decimal accepting buffers (Arr [Inst 1, Plain (JStr ''x'')]) [])))
   \<and> final (push decimal accepting buffers (Arr [Inst 1, Plain (JStr ''x'')]) []) = buffers
   \<and> trace (push decimal accepting buffers (Arr [Inst 1, Plain (JStr ''x'')]) []) = [Collected 1]"
proof -
  have h: "elements (Arr [Inst 1, Plain (JStr ''x'')]) = None
      \<or> (\<exists>xs. elements (Arr [Inst 1, Plain (JStr ''x'')]) = Some xs \<and> \<not> list_all isStream xs)"
    by simp
  have t: "trace (push decimal accepting buffers (Arr [Inst 1, Plain (JStr ''x'')]) []) = [Collected 1]"
    by (simp add: push_def buffers_def)
  from push_invalid_input_touches_no_buffer[OF h, where service = accepting and ?n2s = decimal
        and options = "[]" and st = buffers] t
  show ?thesis by simp
qed

section \<open>Properties of the read operations\<close>

lemma GET_calls: "snd (GET service options prefix u) =
    [\<lparr>url = u, http_method = ''GET'', headers = Read_headers options, body = None\<rparr>]"
  by (simp add: GET_def Let_def)

lemma GET_rejected:
  assumes "snd (GET service options prefix u) = [req]" and "service req = Inl e"
  shows "fst (GET service options prefix u) =
    Inl (if isGigapipeError e then e else GigapipeError (prefix @ error_message e) (statusCode e))"
proof -
  from assms(1) have "req = \<lparr>url = u, http_method = ''GET'', headers = Read_headers options, body = None\<rparr>"
    by (simp add: GET_calls)
  with assms(2) show ?thesis by (simp add: GET_def Let_def rethrow_def)
qed

lemma finish_rejected: "finish n2s queryOptions (Inl e) = Inl e"
  by (simp add: finish_def)

text \<open>
  C7. \<open>queryRange\<close> throws before any network call when the query, the start or the end
  is falsy: the \<open>GigapipeError\<close> \<open>Query parameter is required\<close> for the query, else
  \<open>Start and end timestamps are required\<close> (the missing-parameter errors). Undefined is
  falsy, and so is the number 0. In particular \<open>queryRange("x", undefined, 5)\<close> fails so,
  with no call.
\<close>

theorem queryRange_requires_parameters:
  assumes "\<not> truthy query \<or> \<not> truthy start \<or> \<not> truthy end"
  shows "Read_queryRange n2s service options query start end queryOptions =
           (Inl (GigapipeError (if \<not> truthy query then ''Query parameter is required''
                                else ''Start and end timestamps are required'') None), [])
         \<and> \<not> truthy JUndefined \<and> \<not> truthy (JNum 0)
         \<and> Read_queryRange n2s service options (JStr ''x'') JUndefined (JNum 5) queryOptions =
           (Inl (GigapipeError ''Start and end timestamps are required'' None), [])"
  using assms by (auto simp: Read_queryRange_def)

theorem queryRange_requires_parameters_witness:
  "\<not> truthy (JNum 0)
   \<and> Read_queryRange decimal accepting [] (JStr ''{job=\"api\"}'') (JNum 1000) (JNum 0) [] =
       (Inl (GigapipeError ''Start and end timestamps are required'' None), [])
   \<and> \<not> truthy (JStr [])
   \<and> Read_queryRange decimal accepting [] (JStr []) (JNum 1000) (JNum 2000) [] =
       (Inl (GigapipeError ''Query parameter is required'' None), [])"
proof -
  have h1: "\<not> truthy (JStr ''{job=\"api\"}'') \<or> \<not> truthy (JNum 1000) \<or> \<not> truthy (JNum 0)"
    by simp
  have h2: "\<not> truthy (JStr []) \<or> \<not> truthy (JNum 1000) \<or> \<not> truthy (JNum 2000)"
    by simp
  show ?thesis
    using h1 h2
      queryRange_requires_parameters[OF h1, where ?n2s = decimal and service = accepting
        and options = "[]" and queryOptions = "[]"]
      queryRange_requires_parameters[OF h2, where ?n2s = decimal and service = accepting
        and options = "[]" and queryOptions = "[]"]
    by simp
qed

text \<open>
  C8. \<open>series\<close>, with the cases read in the order of the code: a falsy match throws the
  \<open>GigapipeError\<close> \<open>Match parameter is required\<close>; a match that is present and is
  neither a string nor an array throws \<open>Match must be a string or array of strings\<close>, as
  \<open>series(42)\<close> does; both without a network call. A non-empty string appends exactly
  one \<open>match[]\<close> parameter, and an array of strings one per element in input order,
  after the optional start and end. The two matchers \<open>{job="a"}\<close> and \<open>{job="b"}\<close> give
  two \<open>match[]\<close> parameters in that order.
\<close>

theorem series_match_parameter:
  "(\<not> truthy match \<longrightarrow>
      Read_series n2s service options match queryOptions =
        (Inl (GigapipeError ''Match parameter is required'' None), []))
   \<and> (truthy match \<and> \<not> isString match \<and> \<not> isArray match \<longrightarrow>
      Read_series n2s service options match queryOptions =
        (Inl (GigapipeError ''Match must be a string or array of strings'' None), []))
   \<and> Read_series n2s service options (JNum 42) queryOptions =
        (Inl (GigapipeError ''Match must be a string or array of strings'' None), [])
   \<and> (s \<noteq> [] \<longrightarrow>
      snd (Read_series n2s service options (JStr s) queryOptions) =
        [\<lparr>url = ''/loki/api/v1/series?'' @ params_toString
                 (append_if n2s queryOptions ''start'' @ append_if n2s queryOptions ''end''
                  @ [(''match[]'', s)]),
          http_method = ''GET'', headers = Read_headers options, body = None\<rparr>])
   \<and> snd (Read_series n2s service options (JArr (map JStr ms)) queryOptions) =
        [\<lparr>url = ''/loki/api/v1/series?'' @ params_toString
                 (append_if n2s queryOptions ''start'' @ append_if n2s queryOptions ''end''
                  @ map (\<lambda>m. (''match[]'', m)) ms),
          http_method = ''GET'', headers = Read_headers options, body = None\<rparr>]
   \<and> snd (Read_series n2s service options (JArr [JStr ''{job=\"a\"}'', JStr ''{job=\"b\"}'']) []) =
        [\<lparr>url = ''/loki/api/v1/series?match%5B%5D=%7Bjob%3D%22a%22%7D&match%5B%5D=%7Bjob%3D%22b%22%7D'',
          http_method = ''GET'', headers = Read_headers options, body = None\<rparr>]"
proof (intro conjI impI)
  assume "\<not> truthy match"
  then show "Read_series n2s service options match queryOptions =
        (Inl (GigapipeError ''Match parameter is required'' None), [])"
    by (simp add: Read_series_def)
next
  assume "truthy match \<and> \<not> isString match \<and> \<not> isArray match"
  then show "Read_series n2s service options match queryOptions =
        (Inl (GigapipeError ''Match must be a string or array of strings'' None), [])"
    by (cases match) (simp_all add: Read_series_def)
next
  show "Read_series n2s service options (JNum 42) queryOptions =
        (Inl (GigapipeError ''Match must be a string or array of strings'' None), [])"
    by (simp add: Read_series_def)
next
  assume "s \<noteq> []"
  then show "snd (Read_series n2s service options (JStr s) queryOptions) =
        [\<lparr>url = ''/loki/api/v1/series?'' @ params_toString
                 (append_if n2s queryOptions ''start'' @ append_if n2s queryOptions ''end''
                  @ [(''match[]'', s)]),
          http_method = ''GET'', headers = Read_headers options, body = None\<rparr>]"
    by (simp add: Read_series_def GET_calls)
next
  have "map (\<lambda>m. (''match[]'', ToString n2s m)) (map JStr ms) = map (\<lambda>m. (''match[]'', m)) ms"
    by simp
  then show "snd (Read_series n2s service options (JArr (map JStr ms)) queryOptions) =
        [\<lparr>url = ''/loki/api/v1/series?'' @ params_toString
                 (append_if n2s queryOptions ''start'' @ append_if n2s queryOptions ''end''
                  @ map (\<lambda>m. (''match[]'', m)) ms),
          http_method = ''GET'', headers = Read_headers options, body = None\<rparr>]"
    by (simp add: Read_series_def GET_calls del: map_map)
next
  have "params_toString [(''match[]'', ''{job=\"a\"}''), (''match[]'', ''{job=\"b\"}'')]
      = ''match%5B%5D=%7Bjob%3D%22a%22%7D&match%5B%5D=%7Bjob%3D%22b%22%7D''"
    by (simp add: params_toString_def urlencode_def urlencode_char_def isDigit_def isLower_def
        isUpper_def byte_def HEXDIGIT_def)
  then show "snd (Read_series n2s service options (JArr [JStr ''{job=\"a\"}'', JStr ''{job=\"b\"}'']) []) =
        [\<lparr>url = ''/loki/api/v1/series?match%5B%5D=%7Bjob%3D%22a%22%7D&match%5B%5D=%7Bjob%3D%22b%22%7D'',
          http_method = ''GET'', headers = Read_headers options, body = None\<rparr>]"
    by (simp add: Read_series_def GET_calls append_if_def field_def)
qed

theorem series_match_parameter_witness:
  "\<not> truthy JNull
   \<and> Read_series decimal accepting [] JNull [] =
        (Inl (GigapipeError ''Match parameter is required'' None), [])
   \<and> truthy (JObj []) \<and> \<not> isString (JObj []) \<and> \<not> isArray (JObj [])
   \<and> Read_series decimal accepting [] (JObj []) [] =
        (Inl (GigapipeError ''Match must be a string or array of strings'' None), [])
   \<and> ''up'' \<noteq> []
   \<and> snd (Read_series decimal accepting [] (JStr ''up'') []) =
        [\<lparr>url = ''/loki/api/v1/series?match%5B%5D=up'',
          http_method = ''GET'', headers = [], body = None\<rparr>]"
proof -
  have p: "params_toString [(''match[]'', ''up'')] = ''match%5B%5D=up''"
    by (simp add: params_toString_def urlencode_def urlencode_char_def isDigit_def isLower_def
        isUpper_def byte_def HEXDIGIT_def)
  show ?thesis
    using series_match_parameter[where match = JNull and ?n2s = decimal and service = accepting
        and options = "[]" and queryOptions = "[]" and s = "''up''" and ms = "[]"]
      series_match_parameter[where match = "JObj []" and ?n2s = decimal and service = accepting
        and options = "[]" and queryOptions = "[]" and s = "''up''" and ms = "[]"]
      p
    by (simp add: append_if_def field_def Read_headers_def)
qed

text \<open>
  C9. When the transport rejects the one call of an operation (\<open>query\<close>, \<open>queryRange\<close>,
  \<open>labels\<close>, \<open>labelValues\<close>, \<open>series\<close>, \<open>push\<close>), the operation throws that error
  unchanged if it is a \<open>GigapipeError\<close>, and otherwise a new \<open>GigapipeError\<close> whose
  message is the prefix of the operation followed by the message of the error, with the
  status code of the error.
\<close>

theorem transport_errors_rethrown:
  "(snd (Read_query n2s service options query queryOptions) = [req] \<and> service req = Inl e \<longrightarrow>
      fst (Read_query n2s service options query queryOptions) =
        Inl (if isGigapipeError e then e
             else GigapipeError (''Loki query failed: '' @ error_message e) (statusCode e)))
   \<and> (snd (Read_queryRange n2s service options query start end queryOptions) = [req]
        \<and> service req = Inl e \<longrightarrow>
      fst (Read_queryRange n2s service options query start end queryOptions) =
        Inl (if isGigapipeError e then e
             else GigapipeError (''Loki query range failed: '' @ error_message e) (statusCode e)))
   \<and> (snd (Read_labels n2s service options queryOptions) = [req] \<and> service req = Inl e \<longrightarrow>
      fst (Read_labels n2s service options queryOptions) =
        Inl (if isGigapipeError e then e
             else GigapipeError (''Loki labels retrieval failed: '' @ error_message e) (statusCode e)))
   \<and> (snd (Read_labelValues n2s service options labelName queryOptions) = [req]
        \<and> service req = Inl e \<longrightarrow>
      fst (Read_labelValues n2s service options labelName queryOptions) =
        Inl (if isGigapipeError e then e
             else GigapipeError (''Loki label values retrieval failed: '' @ error_message e)
                    (statusCode e)))
   \<and> (snd (Read_series n2s service options match queryOptions) = [req] \<and> service req = Inl e \<longrightarrow>
      fst (Read_series n2s service options match queryOptions) =
        Inl (if isGigapipeError e then e
             else GigapipeError (''Loki series retrieval failed: '' @ error_message e) (statusCode e)))
   \<and> (network_calls (trace (push n2s service st streams pushOptions)) = [req]
        \<and> service req = Inl e \<longrightarrow>
      outcome (push n2s service st streams pushOptions) =
        Inl (if isGigapipeError e then e
             else GigapipeError (''Loki push failed: '' @ error_message e) (statusCode e)))"
proof (intro conjI impI)
  assume a: "snd (Read_query n2s service options query queryOptions) = [req] \<and> service req = Inl e"
  show "fst (Read_query n2s service options query queryOptions) =
        Inl (if isGigapipeError e then e
             else GigapipeError (''Loki query failed: '' @ error_message e) (statusCode e))"
  proof (cases "truthy query")
    case False
    with a show ?thesis by (simp add: Read_query_def)
  next
    case True
    with a GET_rejected[of service options "''Loki query failed: ''" _ req e]
    show ?thesis
      by (simp add: Read_query_def Let_def split_beta finish_rejected)
  qed
next
  assume a: "snd (Read_queryRange n2s service options query start end queryOptions) = [req]
        \<and> service req = Inl e"
  show "fst (Read_queryRange n2s service options query start end queryOptions) =
        Inl (if isGigapipeError e then e
             else GigapipeError (''Loki query range failed: '' @ error_message e) (statusCode e))"
  proof (cases "truthy query \<and> truthy start \<and> truthy end")
    case False
    with a show ?thesis by (auto simp: Read_queryRange_def)
  next
    case True
    with a GET_rejected[of service options "''Loki query range failed: ''" _ req e]
    show ?thesis
      by (simp add: Read_queryRange_def Let_def split_beta finish_rejected)
  qed
next
  assume a: "snd (Read_labels n2s service options queryOptions) = [req] \<and> service req = Inl e"
  with GET_rejected[of service options "''Loki labels retrieval failed: ''" _ req e]
  show "fst (Read_labels n2s service options queryOptions) =
        Inl (if isGigapipeError e then e
             else GigapipeError (''Loki labels retrieval failed: '' @ error_message e) (statusCode e))"
    by (simp add: Read_labels_def Let_def)
next
  assume a: "snd (Read_labelValues n2s service options labelName queryOptions) = [req]
        \<and> service req = Inl e"
  show "fst (Read_labelValues n2s service options labelName queryOptions) =
        Inl (if isGigapipeError e then e
             else GigapipeError (''Loki label values retrieval failed: '' @ error_message e)
                    (statusCode e))"
  proof (cases "truthy labelName")
    case False
    with a show ?thesis by (simp add: Read_labelValues_def)
  next
    case True
    with a GET_rejected[of service options "''Loki label values retrieval failed: ''" _ req e]
    show ?thesis by (simp add: Read_labelValues_def Let_def)
  qed
next
  assume a: "snd (Read_series n2s service options match queryOptions) = [req] \<and> service req = Inl e"
  show "fst (Read_series n2s service options match queryOptions) =
        Inl (if isGigapipeError e then e
             else GigapipeError (''Loki series retrieval failed: '' @ error_message e) (statusCode e))"
  proof (cases "truthy match")
    case False
    with a show ?thesis by (simp add: Read_series_def)
  next
    case True
    show ?thesis
    proof (cases "match_params n2s match")
      case None
      with True a show ?thesis by (simp add: Read_series_def)
    next
      case (Some ms)
      with True a GET_rejected[of service options "''Loki series retrieval failed: ''" _ req e]
      show ?thesis by (simp add: Read_series_def Let_def)
    qed
  qed
next
  assume a: "network_calls (trace (push n2s service st streams pushOptions)) = [req]
        \<and> service req = Inl e"
  show "outcome (push n2s service st streams pushOptions) =
        Inl (if isGigapipeError e then e
             else GigapipeError (''Loki push failed: '' @ error_message e) (statusCode e))"
  proof (cases "elements streams = None \<or> (\<exists>xs. elements streams = Some xs \<and> \<not> list_all isStream xs)")
    case True
    from push_invalid[OF True, of n2s service st pushOptions] a show ?thesis
      by (auto simp: network_calls_Collected)
  next
    case False
    then obtain xs where xs: "elements streams = Some xs" "list_all isStream xs" by auto
    from push_valid_calls[OF xs, of n2s service st pushOptions] a
    have "service (push_request n2s pushOptions (map (\<lambda>a. collect (st a)) (pending st (instances xs)))) = Inl e"
      by simp
    with push_valid[OF xs, of n2s service st pushOptions] show ?thesis
      by (simp add: Let_def rethrow_def)
  qed
qed

theorem transport_errors_rethrown_witness:
  "snd (Read_query decimal (rejecting (OtherError ''boom'' (Some 502))) [] (JStr ''up'') []) =
     [\<lparr>url = ''/loki/api/v1/query?query=up'', http_method = ''GET'', headers = [], body = None\<rparr>]
   \<and> rejecting (OtherError ''boom'' (Some 502))
        \<lparr>url = ''/loki/api/v1/query?query=up'', http_method = ''GET'', headers = [], body = None\<rparr>
       = Inl (OtherError ''boom'' (Some 502))
   \<and> fst (Read_query decimal (rejecting (OtherError ''boom'' (Some 502))) [] (JStr ''up'') []) =
       Inl (GigapipeError ''Loki query failed: boom'' (Some 502))
   \<and> fst (Read_queryRange decimal (rejecting (OtherError ''boom'' (Some 502))) []
             (JStr ''up'') (JStr ''1'') (JStr ''2'') []) =
       Inl (GigapipeError ''Loki query range failed: boom'' (Some 502))
   \<and> fst (Read_labels decimal (rejecting (GigapipeError ''HTTP 401'' (Some 401))) [] []) =
       Inl (GigapipeError ''HTTP 401'' (Some 401))
   \<and> fst (Read_labelValues decimal (rejecting (OtherError ''boom'' None)) [] (JStr ''job'') []) =
       Inl (GigapipeError ''Loki label values retrieval failed: boom'' None)
   \<and> fst (Read_series decimal (rejecting (OtherError ''boom'' (Some 502))) [] (JStr ''up'') []) =
       Inl (GigapipeError ''Loki series retrieval failed: boom'' (Some 502))
   \<and> outcome (push decimal (rejecting (GigapipeError ''HTTP 401'' (Some 401))) buffers (Arr [Inst 1]) []) =
       Inl (GigapipeError ''HTTP 401'' (Some 401))"
proof -
  have enc: "urlencode ''up'' = ''up''" "urlencode ''query'' = ''query''"
    "urlencode ''start'' = ''start''" "urlencode ''end'' = ''end''"
    "urlencode ''1'' = ''1''" "urlencode ''2'' = ''2''" "urlencode ''match[]'' = ''match%5B%5D''"
    by (simp_all add: urlencode_def urlencode_char_def isDigit_def isLower_def
        isUpper_def byte_def HEXDIGIT_def)
  have q: "snd (Read_query decimal (rejecting (OtherError ''boom'' (Some 502))) [] (JStr ''up'') []) =
     [\<lparr>url = ''/loki/api/v1/query?query=up'', http_method = ''GET'', headers = [], body = None\<rparr>]"
    by (simp add: Read_query_def Let_def split_beta GET_calls params_toString_def enc
        append_if_def field_def Read_headers_def)
  have qr: "snd (Read_queryRange decimal (rejecting (OtherError ''boom'' (Some 502))) []
             (JStr ''up'') (JStr ''1'') (JStr ''2'') []) =
     [\<lparr>url = ''/loki/api/v1/query_range?query=up&start=1&end=2'', http_method = ''GET'',
       headers = [], body = None\<rparr>]"
    by (simp add: Read_queryRange_def Let_def split_beta GET_calls params_toString_def enc
        append_if_def field_def Read_headers_def)
  have l: "snd (Read_labels decimal (rejecting (GigapipeError ''HTTP 401'' (Some 401))) [] []) =
     [\<lparr>url = ''/loki/api/v1/labels'', http_method = ''GET'', headers = [], body = None\<rparr>]"
    by (simp add: Read_labels_def Let_def GET_calls params_toString_def with_query_def
        append_if_def field_def Read_headers_def)
  have lv: "snd (Read_labelValues decimal (rejecting (OtherError ''boom'' None)) [] (JStr ''job'') []) =
     [\<lparr>url = ''/loki/api/v1/label/job/values'', http_method = ''GET'', headers = [], body = None\<rparr>]"
    by (simp add: Read_labelValues_def Let_def GET_calls params_toString_def with_query_def
        append_if_def field_def Read_headers_def)
  have s: "snd (Read_series decimal (rejecting (OtherError ''boom'' (Some 502))) [] (JStr ''up'') []) =
     [\<lparr>url = ''/loki/api/v1/series?match%5B%5D=up'', http_method = ''GET'', headers = [], body = None\<rparr>]"
    by (simp add: Read_series_def Let_def GET_calls params_toString_def enc
        append_if_def field_def Read_headers_def)
  have p: "network_calls (trace (push decimal (rejecting (GigapipeError ''HTTP 401'' (Some 401)))
              buffers (Arr [Inst 1]) [])) = [push_request decimal [] [collect (buffers 1)]]"
    using push_valid_calls[of "Arr [Inst 1]" "[Inst 1]" decimal
        "rejecting (GigapipeError ''HTTP 401'' (Some 401))" buffers "[]"]
    by (simp add: pending_def buffers_def)
  have r: "rejecting e req = Inl e" for e req by (simp add: rejecting_def)
  from q r transport_errors_rethrown[where ?n2s = decimal
        and service = "rejecting (OtherError ''boom'' (Some 502))" and options = "[]"
        and query = "JStr ''up''" and queryOptions = "[]" and e = "OtherError ''boom'' (Some 502)"
        and req = "\<lparr>url = ''/loki/api/v1/query?query=up'', http_method = ''GET'', headers = [], body = None\<rparr>"]
  have 1: "fst (Read_query decimal (rejecting (OtherError ''boom'' (Some 502))) [] (JStr ''up'') []) =
       Inl (GigapipeError ''Loki query failed: boom'' (Some 502))"
    by simp
  from qr r transport_errors_rethrown[where ?n2s = decimal
        and service = "rejecting (OtherError ''boom'' (Some 502))" and options = "[]"
        and query = "JStr ''up''" and start = "JStr ''1''" and ?end = "JStr ''2''"
        and queryOptions = "[]" and e = "OtherError ''boom'' (Some 502)"
        and req = "\<lparr>url = ''/loki/api/v1/query_range?query=up&start=1&end=2'', http_method = ''GET'',
                     headers = [], body = None\<rparr>"]
  have 2: "fst (Read_queryRange decimal (rejecting (OtherError ''boom'' (Some 502))) []
             (JStr ''up'') (JStr ''1'') (JStr ''2'') []) =
       Inl (GigapipeError ''Loki query range failed: boom'' (Some 502))"
    by simp
  from l r transport_errors_rethrown[where ?n2s = decimal
        and service = "rejecting (GigapipeError ''HTTP 401'' (Some 401))" and options = "[]"
        and queryOptions = "[]" and e = "GigapipeError ''HTTP 401'' (Some 401)"
        and req = "\<lparr>url = ''/loki/api/v1/labels'', http_method = ''GET'', headers = [], body = None\<rparr>"]
  have 3: "fst (Read_labels decimal (rejecting (GigapipeError ''HTTP 401'' (Some 401))) [] []) =
       Inl (GigapipeError ''HTTP 401'' (Some 401))"
    by simp
  from lv r transport_errors_rethrown[where ?n2s = decimal
        and service = "rejecting (OtherError ''boom'' None)" and options = "[]"
        and labelName = "JStr ''job''" and queryOptions = "[]" and e = "OtherError ''boom'' None"
        and req = "\<lparr>url = ''/loki/api/v1/label/job/values'', http_method = ''GET'', headers = [], body = None\<rparr>"]
  have 4: "fst (Read_labelValues decimal (rejecting (OtherError ''boom'' None)) [] (JStr ''job'') []) =
       Inl (GigapipeError ''Loki label values retrieval failed: boom'' None)"
    by simp
  from s r transport_errors_rethrown[where ?n2s = decimal
        and service = "rejecting (OtherError ''boom'' (Some 502))" and options = "[]"
        and match = "JStr ''up''" and queryOptions = "[]" and e = "OtherError ''boom'' (Some 502)"
        and req = "\<lparr>url = ''/loki/api/v1/series?match%5B%5D=up'', http_method = ''GET'', headers = [], body = None\<rparr>"]
  have 5: "fst (Read_series decimal (rejecting (OtherError ''boom'' (Some 502))) [] (JStr ''up'') []) =
       Inl (GigapipeError ''Loki series retrieval failed: boom'' (Some 502))"
    by simp
  from p r transport_errors_rethrown[where ?n2s = decimal
        and service = "rejecting (GigapipeError ''HTTP 401'' (Some 401))" and st = buffers
        and streams = "Arr [Inst 1]" and pushOptions = "[]" and e = "GigapipeError ''HTTP 401'' (Some 401)"
        and req = "push_request decimal [] [collect (buffers 1)]"]
  have 6: "outcome (push decimal (rejecting (GigapipeError ''HTTP 401'' (Some 401))) buffers (Arr [Inst 1]) []) =
       Inl (GigapipeError ''HTTP 401'' (Some 401))"
    by simp
  from q r 1 2 3 4 5 6 show ?thesis by simp
qed

section \<open>Properties of parseLogs\<close>

text \<open>
  C6. When the nested result field is absent (or falsy), or the result type is neither
  \<open>streams\<close> nor \<open>matrix\<close>, \<open>parseLogs\<close> returns the empty sequence; it does not throw.
\<close>

theorem parseLogs_empty_without_result:
  assumes "chain (chain (chain result ''response'') ''data'') ''result'' = JUndefined
     \<or> \<not> truthy (chain (chain (chain result ''response'') ''data'') ''result'')
     \<or> (chain (chain (chain result ''response'') ''data'') ''resultType'' \<noteq> JStr ''streams''
        \<and> chain (chain (chain result ''response'') ''data'') ''resultType'' \<noteq> JStr ''matrix'')"
  shows "parseLogs n2s result = Inr []"
proof (cases "truthy (chain (chain (chain result ''response'') ''data'') ''result'')")
  case False
  then show ?thesis by (simp add: parseLogs_def Let_def)
next
  case True
  then have nn: "chain (chain result ''response'') ''data'' \<noteq> JUndefined"
    "chain (chain result ''response'') ''data'' \<noteq> JNull"
    by (auto simp: chain_def)
  with True assms have "getprop (chain (chain result ''response'') ''data'') ''resultType'' \<noteq> JStr ''streams''
      \<and> getprop (chain (chain result ''response'') ''data'') ''resultType'' \<noteq> JStr ''matrix''"
    by (auto simp: chain_def)
  then show ?thesis by (simp add: parseLogs_def Let_def)
qed

theorem parseLogs_empty_without_result_witness:
  "chain (chain (chain (JObj [(''response'', JObj [(''status'', JNum 204)])]) ''response'') ''data'') ''result''
     = JUndefined
   \<and> parseLogs decimal (JObj [(''response'', JObj [(''status'', JNum 204)])]) = Inr []
   \<and> chain (chain (chain (response_of ''vector'' (JArr [JObj [(''values'', JNum 1)]])) ''response'') ''data'')
        ''resultType'' \<noteq> JStr ''streams''
   \<and> chain (chain (chain (response_of ''vector'' (JArr [JObj [(''values'', JNum 1)]])) ''response'') ''data'')
        ''resultType'' \<noteq> JStr ''matrix''
   \<and> parseLogs decimal (response_of ''vector'' (JArr [JObj [(''values'', JNum 1)]])) = Inr []"
proof -
  have h1: "chain (chain (chain (JObj [(''response'', JObj [(''status'', JNum 204)])]) ''response'') ''data'')
      ''result'' = JUndefined"
    by (simp add: chain_def field_def)
  have h2: "chain (chain (chain (response_of ''vector'' (JArr [JObj [(''values'', JNum 1)]])) ''response'') ''data'')
        ''resultType'' \<noteq> JStr ''streams''
     \<and> chain (chain (chain (response_of ''vector'' (JArr [JObj [(''values'', JNum 1)]])) ''response'') ''data'')
        ''resultType'' \<noteq> JStr ''matrix''"
    by (simp add: chain_def field_def response_of_def)
  from h1 h2
    parseLogs_empty_without_result[where result = "JObj [(''response'', JObj [(''status'', JNum 204)])]"
      and ?n2s = decimal]
    parseLogs_empty_without_result[where result = "response_of ''vector'' (JArr [JObj [(''values'', JNum 1)]])"
      and ?n2s = decimal]
  show ?thesis by blast
qed

lemma forEach_logs_mem:
  "forEach_logs f xs = Inr ys \<Longrightarrow> y \<in> set ys \<Longrightarrow> \<exists>x \<in> set xs. \<exists>zs. f x = Inr zs \<and> y \<in> set zs"
proof (induction xs arbitrary: ys)
  case Nil
  then show ?case by simp
next
  case (Cons x xs)
  from Cons.prems(1) obtain zs ws where f: "f x = Inr zs" and r: "forEach_logs f xs = Inr ws"
    and ys: "ys = zs @ ws"
    by (auto split: sum.splits)
  from Cons.prems(2) ys consider "y \<in> set zs" | "y \<in> set ws" by auto
  then show ?case
  proof cases
    case 1
    with f show ?thesis by auto
  next
    case 2
    from Cons.IH[OF r 2] show ?thesis by auto
  qed
qed

lemma forEach_of_mem:
  "forEach_of v f = Inr ys \<Longrightarrow> y \<in> set ys \<Longrightarrow>
     \<exists>xs. v = JArr xs \<and> (\<exists>x \<in> set xs. \<exists>zs. f x = Inr zs \<and> y \<in> set zs)"
  by (cases v) (auto dest: forEach_logs_mem)

text \<open>Every record of the result was pushed by the body that both branches share.\<close>

lemma parseLogs_records_from_emit:
  assumes "parseLogs n2s result = Inr logs" and "r \<in> set logs"
  shows "\<exists>lbls entry. emit n2s lbls entry = Inr [r]"
proof -
  have em: "emit n2s lbls entry = Inr zs \<Longrightarrow> r \<in> set zs \<Longrightarrow> emit n2s lbls entry = Inr [r]"
    for lbls entry zs
    by (auto simp: emit_def Let_def split: jsval.splits list.splits option.splits)
  have st: "\<exists>lbls entry. emit n2s lbls entry = Inr [r]"
    if "stream_logs n2s s = Inr zs" "r \<in> set zs" for s zs
  proof -
    from that obtain vals where "forEach_of vals (emit n2s (or_empty (getprop s ''stream''))) = Inr zs"
      by (auto simp: stream_logs_def split: sum.splits if_splits)
    from forEach_of_mem[OF this that(2)] em show ?thesis by blast
  qed
  have bu: "\<exists>lbls entry. emit n2s lbls entry = Inr [r]"
    if "bucket_logs n2s l b = Inr zs" "r \<in> set zs" for l b zs
  proof -
    from that obtain es where "forEach_logs (emit n2s l) es = Inr zs"
      by (auto simp: bucket_logs_def split: sum.splits)
    from forEach_logs_mem[OF this that(2)] em show ?thesis by blast
  qed
  have se: "\<exists>lbls entry. emit n2s lbls entry = Inr [r]"
    if "series_logs n2s s = Inr zs" "r \<in> set zs" for s zs
  proof -
    from that obtain vals where "forEach_of vals (bucket_logs n2s (or_empty (getprop s ''metric''))) = Inr zs"
      by (auto simp: series_logs_def split: sum.splits if_splits)
    from forEach_of_mem[OF this that(2)] bu show ?thesis by blast
  qed
  from assms consider
      (s) res where "forEach_of res (stream_logs n2s) = Inr logs"
    | (m) res where "forEach_of res (series_logs n2s) = Inr logs"
    by (auto simp: parseLogs_def Let_def split: if_splits)
  then show ?thesis
  proof cases
    case s
    from forEach_of_mem[OF s assms(2)] st show ?thesis by blast
  next
    case m
    from forEach_of_mem[OF m assms(2)] se show ?thesis by blast
  qed
qed

lemma newDate_valid:
  assumes "toISOString (newDate x) = Some isoText"
  shows "\<exists>ms. x = Finite ms \<and> \<bar>ms\<bar> \<le> 8640000000000000 \<and> newDate x = Date (toInteger ms)"
proof (cases x)
  case (Finite ms)
  with assms show ?thesis by (cases "\<bar>ms\<bar> > 8640000000000000") auto
next
  case (Infinite s)
  with assms show ?thesis by simp
next
  case NaN
  with assms show ?thesis by simp
qed

lemma emit_record:
  assumes "emit n2s lbls entry = Inr [r]"
  shows "timestampMs r = fdiv (parseInt n2s (timestamp r)) 1000000
         \<and> date r = newDate (timestampMs r)
         \<and> toISOString (date r) = Some (dateISO r)"
  using assms
  by (auto simp: emit_def Let_def simp del: toISOString.simps
      split: jsval.splits list.splits option.splits)

lemma streams_example:
  "parseLogs n2s (response_of ''streams''
       (JArr [JObj [(''stream'', lbls), (''values'', JArr [JArr [JStr ''1000000000'', JStr ''hello'']])]])) =
     Inr [\<lparr>timestamp = JStr ''1000000000'', timestampMs = Finite 1000, date = Date 1000,
           dateISO = ''1970-01-01T00:00:01.000Z'', message = JStr ''hello'',
           labels = or_empty lbls\<rparr>]"
  by code_simp

text \<open>
  C2, as amended. For every record that \<open>parseLogs\<close> returns, in both branches,
  \<open>timestampMs\<close> is the number that \<open>parseInt\<close> reads in the nanosecond timestamp
  divided by 1,000,000, a division of doubles that is not truncated to an integer. The
  date is the \<open>Date\<close> of that number of milliseconds, which drops the fraction. A
  streams reply with the single entry \<open>["1000000000", "hello"]\<close> gives exactly one
  record, with \<open>timestampMs = 1000\<close>, the text \<open>hello\<close> as message and the date 1000 ms
  after the epoch.
\<close>

theorem parseLogs_derived_timestamps:
  "(parseLogs n2s result = Inr logs \<and> r \<in> set logs \<longrightarrow>
      timestampMs r = fdiv (parseInt n2s (timestamp r)) 1000000
      \<and> date r = newDate (timestampMs r)
      \<and> (\<exists>ms. timestampMs r = Finite ms \<and> date r = Date (toInteger ms)))
   \<and> parseLogs n2s (response_of ''streams''
       (JArr [JObj [(''stream'', lbls), (''values'', JArr [JArr [JStr ''1000000000'', JStr ''hello'']])]])) =
     Inr [\<lparr>timestamp = JStr ''1000000000'', timestampMs = Finite 1000, date = Date 1000,
           dateISO = ''1970-01-01T00:00:01.000Z'', message = JStr ''hello'',
           labels = or_empty lbls\<rparr>]"
proof (intro conjI impI)
  assume a: "parseLogs n2s result = Inr logs \<and> r \<in> set logs"
  then obtain lbls entry where "emit n2s lbls entry = Inr [r]"
    using parseLogs_records_from_emit by blast
  note rec = emit_record[OF this]
  note ms = rec[THEN conjunct1]
  note d = rec[THEN conjunct2, THEN conjunct1]
  note i = rec[THEN conjunct2, THEN conjunct2]
  from ms show "timestampMs r = fdiv (parseInt n2s (timestamp r)) 1000000" .
  from d show "date r = newDate (timestampMs r)" .
  from i have "toISOString (newDate (timestampMs r)) = Some (dateISO r)" unfolding d .
  from newDate_valid[OF this] d
  show "\<exists>ms. timestampMs r = Finite ms \<and> date r = Date (toInteger ms)" by auto
next
  show "parseLogs n2s (response_of ''streams''
       (JArr [JObj [(''stream'', lbls), (''values'', JArr [JArr [JStr ''1000000000'', JStr ''hello'']])]])) =
     Inr [\<lparr>timestamp = JStr ''1000000000'', timestampMs = Finite 1000, date = Date 1000,
           dateISO = ''1970-01-01T00:00:01.000Z'', message = JStr ''hello'',
           labels = or_empty lbls\<rparr>]"
    by (rule streams_example)
qed

theorem parseLogs_derived_timestamps_witness:
  "parseLogs decimal (response_of ''streams''
       (JArr [JObj [(''values'', JArr [JArr [JStr ''1700000000002000000'', JStr ''tick'']])]])) =
     Inr [\<lparr>timestamp = JStr ''1700000000002000000'',
           timestampMs = Finite (6963200000008191 / 4096), date = Date 1700000000001,
           dateISO = ''2023-11-14T22:13:20.001Z'', message = JStr ''tick'', labels = JObj []\<rparr>]
   \<and> parseInt decimal (JStr ''1700000000002000000'') = Finite 1700000000001999872
   \<and> Finite (6963200000008191 / 4096) = fdiv (parseInt decimal (JStr ''1700000000002000000'')) 1000000
   \<and> Date 1700000000001 = newDate (Finite (6963200000008191 / 4096))
   \<and> (\<exists>ms. Finite (6963200000008191 / 4096) = Finite ms \<and> Date 1700000000001 = Date (toInteger ms))"
proof -
  let ?r = "\<lparr>timestamp = JStr ''1700000000002000000'',
           timestampMs = Finite (6963200000008191 / 4096), date = Date 1700000000001,
           dateISO = ''2023-11-14T22:13:20.001Z'', message = JStr ''tick'', labels = JObj []\<rparr>"
  have h: "parseLogs decimal (response_of ''streams''
       (JArr [JObj [(''values'', JArr [JArr [JStr ''1700000000002000000'', JStr ''tick'']])]])) =
     Inr [?r]"
    by code_simp
  have m: "?r \<in> set [?r]" by simp
  have p: "parseInt decimal (JStr ''1700000000002000000'') = Finite 1700000000001999872"
    by code_simp
  from h m parseLogs_derived_timestamps[where ?n2s = decimal
      and result = "response_of ''streams''
       (JArr [JObj [(''values'', JArr [JArr [JStr ''1700000000002000000'', JStr ''tick'']])]])"
      and logs = "[?r]" and r = ?r and lbls = JNull]
  have c: "timestampMs ?r = fdiv (parseInt decimal (timestamp ?r)) 1000000
      \<and> date ?r = newDate (timestampMs ?r)
      \<and> (\<exists>ms. timestampMs ?r = Finite ms \<and> date ?r = Date (toInteger ms))"
    by blast
  have sel: "timestampMs ?r = Finite (6963200000008191 / 4096)"
    "timestamp ?r = JStr ''1700000000002000000''" "date ?r = Date 1700000000001"
    by simp_all
  from c[unfolded sel] h p show ?thesis by blast
qed

text \<open>
  C2 as stated fails: the entry \<open>["1500000", "x"]\<close> gives \<open>timestampMs = 3/2\<close>, where
  the truncating division gives 1.
\<close>

theorem parseLogs_timestampMs_not_truncated:
  "parseLogs decimal (response_of ''streams''
       (JArr [JObj [(''values'', JArr [JArr [JStr ''1500000'', JStr ''x'']])]])) =
     Inr [\<lparr>timestamp = JStr ''1500000'', timestampMs = Finite (3 / 2), date = Date 1,
           dateISO = ''1970-01-01T00:00:00.001Z'', message = JStr ''x'', labels = JObj []\<rparr>]
   \<and> parseInt decimal (JStr ''1500000'') = Finite 1500000
   \<and> Finite (3 / 2) \<noteq> Finite (of_int (toInteger (1500000 / 1000000)))"
  by code_simp

subsection \<open>The matrix branch\<close>


























end
